(* ===== verification/Prelude.thy ===== *)
theory Prelude
  imports Complex_Main "HOL-Library.Sublist"
begin

text \<open>
  Shared vocabulary of the development: the Python values a catalog cell can hold, the
  error a Python operation can raise, the result type \<open>py_error + 'a\<close> of a fallible
  operation, a list comprehension whose condition may raise (\<open>filter_res\<close>), the
  capabilities the chatbot receives from NLTK (a tokenizer and the WordNet synset table),
  and the lemmas on characters, options and sums that the component theories share.
\<close>

named_theorems text_simps \<open>equations that evaluate the string primitives on literals\<close>
named_theorems res_simps \<open>equations that evaluate fallible list comprehensions\<close>

section \<open>Python values and errors\<close>

text \<open>
  A cell of the DataFrame that \<open>load_movies\<close> reads (\<^verbatim>\<open>src/main.py\<close>, lines 31--39),
  of the type pandas gives its column: a string, an integer, a float (kept as the exact
  rational its decimal literal denotes), a boolean, or the float NaN that pandas puts
  into a missing cell. After \<open>fillna('')\<close> no cell is NaN.
\<close>

datatype pyval = PStr string | PInt int | PFloat rat | PBool bool | PNaN

text \<open>
  The exceptions the program can raise: \<open>AttributeError\<close> from \<open>.lower()\<close> on a
  non-string, \<open>LookupError\<close> from NLTK when a data resource it loads is not installed,
  and, at start-up, what \<open>pd.read_csv\<close> raises on a malformed file
  (\<open>ParserError\<close>) or an empty one (\<open>EmptyDataError\<close>) and the \<open>KeyError\<close> of a
  column selection naming a column the file lacks.
\<close>

datatype py_error = AttributeError | LookupError | ParserError | EmptyDataError | KeyError

type_synonym 'a res = "py_error + 'a"

fun is_str :: "pyval \<Rightarrow> bool" where
  "is_str (PStr _) = True"
| "is_str _ = False"

section \<open>Capabilities supplied by NLTK\<close>

text \<open>
  \<open>word_tokenize\<close> and \<open>wordnet.synsets\<close> are library code the program only calls.
  They are parameters of the model: a tokenizer maps a (lowercased) query to its tokens,
  and WordNet maps a word to its synsets, each synset given by the names of its lemmas
  (\<open>lemma.name()\<close>), in WordNet's order. Both may raise (\<open>LookupError\<close> when their
  data is missing), so both return a result; a \<open>corpus\<close> is the table of an installed
  WordNet, and \<open>always f\<close> is the capability that never raises.
\<close>

type_synonym tokenizer = "string \<Rightarrow> string list res"
type_synonym synset = "string list"
type_synonym wordnet = "string \<Rightarrow> synset list res"
type_synonym corpus = "string \<Rightarrow> synset list"

definition always :: "('a \<Rightarrow> 'b) \<Rightarrow> 'a \<Rightarrow> 'b res" where
  "always f x = Inr (f x)"

text \<open>
  A loop \<open>for x in xs\<close> whose body may raise: the results in order, or the first
  exception.
\<close>

fun map_res :: "('a \<Rightarrow> 'b res) \<Rightarrow> 'a list \<Rightarrow> 'b list res" where
  "map_res f [] = Inr []"
| "map_res f (x # xs) =
     (case f x of
        Inl e \<Rightarrow> Inl e
      | Inr y \<Rightarrow> (case map_res f xs of Inl e \<Rightarrow> Inl e | Inr ys \<Rightarrow> Inr (y # ys)))"

section \<open>Fallible list comprehensions\<close>

text \<open>
  \<open>[m for m in xs if cond(m)]\<close> where evaluating \<open>cond\<close> may raise: elements are
  tested in order and the first exception aborts the whole comprehension.
\<close>

fun filter_res :: "('a \<Rightarrow> bool res) \<Rightarrow> 'a list \<Rightarrow> 'a list res" where
  "filter_res P [] = Inr []"
| "filter_res P (x # xs) =
     (case P x of
        Inl e \<Rightarrow> Inl e
      | Inr b \<Rightarrow> (case filter_res P xs of
                   Inl e \<Rightarrow> Inl e
                 | Inr ys \<Rightarrow> Inr (if b then x # ys else ys)))"

lemma filter_res_subset: "filter_res P xs = Inr ys \<Longrightarrow> set ys \<subseteq> set xs"
  by (induction xs arbitrary: ys) (auto split: sum.splits if_splits)

lemma filter_res_Inr [res_simps]:
  assumes "\<forall>x\<in>set xs. P x = Inr (Q x)"
  shows "filter_res P xs = Inr (filter Q xs)"
  using assms by (induction xs) auto

lemma filter_res_Inl_elem:
  "filter_res P xs = Inl e \<Longrightarrow> \<exists>x\<in>set xs. P x = Inl e"
  by (induction xs) (auto split: sum.splits)

lemma filter_res_first_Inl [res_simps]:
  "\<forall>y\<in>set xs. \<exists>b. P y = Inr b \<Longrightarrow> P x = Inl e \<Longrightarrow> filter_res P (xs @ x # ys) = Inl e"
  by (induction xs) (auto split: sum.splits)

lemma always_apply [simp]: "always f x = Inr (f x)"
  by (simp add: always_def)

lemma map_res_Inr:
  "(\<forall>x\<in>set xs. f x = Inr (g x)) \<Longrightarrow> map_res f xs = Inr (map g xs)"
  by (induction xs) auto

lemma map_res_Inl_elem: "map_res f xs = Inl e \<Longrightarrow> \<exists>x\<in>set xs. f x = Inl e"
  by (induction xs) (auto split: sum.splits)

lemma map_res_first_Inl:
  "f x = Inl e \<Longrightarrow> map_res f (x # xs) = Inl e"
  by simp

lemma filter_res_append:
  "filter_res P (xs @ ys) =
     (case filter_res P xs of
        Inl e \<Rightarrow> Inl e
      | Inr as \<Rightarrow> (case filter_res P ys of Inl e \<Rightarrow> Inl e | Inr bs \<Rightarrow> Inr (as @ bs)))"
  by (induction xs) (auto split: sum.splits)

section \<open>Lists\<close>

lemma subseq_filter_mono:
  assumes "\<And>x. x \<in> set xs \<Longrightarrow> P x \<Longrightarrow> Q x"
  shows "subseq (filter P xs) (filter Q xs)"
  using assms by (induction xs) auto

lemma filter_cong_set:
  assumes "\<And>x. x \<in> set xs \<Longrightarrow> P x = Q x"
  shows "filter P xs = filter Q xs"
  using assms by (induction xs) auto

lemma find_Some_split:
  "find P xs = Some x \<longleftrightarrow> (\<exists>ps ss. xs = ps @ x # ss \<and> P x \<and> (\<forall>p\<in>set ps. \<not> P p))"
proof (induction xs)
  case Nil
  then show ?case by simp
next
  case (Cons y ys)
  show ?case
  proof (cases "P y")
    case True
    then show ?thesis by (auto simp: Cons_eq_append_conv intro: exI [of _ "[]"])
  next
    case False
    show ?thesis
    proof
      assume "find P (y # ys) = Some x"
      with False Cons.IH obtain ps ss where "ys = ps @ x # ss" "P x" "\<forall>p\<in>set ps. \<not> P p"
        by auto
      with False show "\<exists>ps ss. y # ys = ps @ x # ss \<and> P x \<and> (\<forall>p\<in>set ps. \<not> P p)"
        by (intro exI [of _ "y # ps"] exI [of _ ss]) simp
    next
      assume "\<exists>ps ss. y # ys = ps @ x # ss \<and> P x \<and> (\<forall>p\<in>set ps. \<not> P p)"
      then obtain ps ss where eq: "y # ys = ps @ x # ss" and px: "P x" and pre: "\<forall>p\<in>set ps. \<not> P p"
        by blast
      with False obtain ps' where "ps = y # ps'"
        by (cases ps) auto
      with eq px pre Cons.IH False show "find P (y # ys) = Some x"
        by auto
    qed
  qed
qed

lemma find_Some_mem: "find P xs = Some x \<Longrightarrow> x \<in> set xs"
  by (auto simp: find_Some_split)

section \<open>Characters\<close>

text \<open>
  \<open>char_of\<close> on a numeral does not reduce by \<open>simp\<close> on its own; these two equations
  compare it with a character literal through its code, which \<open>simp\<close> computes.
\<close>

lemma char_of_nat_eq_lit [simp, text_simps]:
  "(char_of (n::nat) = c) \<longleftrightarrow> n mod 256 = of_char c"
  by (simp add: char_of_eq_iff take_bit_eq_mod)

lemma lit_eq_char_of_nat [simp, text_simps]:
  "(c = char_of (n::nat)) \<longleftrightarrow> n mod 256 = of_char c"
  by (metis char_of_nat_eq_lit)


text \<open>Splitting at the first occurrence of a separator.\<close>

lemma takeWhile_upto_sep [simp]: "c \<notin> set p \<Longrightarrow> takeWhile (\<lambda>x. x \<noteq> c) (p @ c # q) = p"
  by (induction p) auto

lemma takeWhile_no_sep [simp]: "c \<notin> set p \<Longrightarrow> takeWhile (\<lambda>x. x \<noteq> c) p = p"
  by (induction p) auto

end
