(* ===== verification/Text.thy ===== *)
theory Text
  imports Prelude
begin

text \<open>
  The two string builtins the matcher is made of: \<open>str.lower()\<close>, which the code applies
  to the query, to every WordNet lemma name and to every category, and the containment
  test \<open>s in t\<close> of two strings. \<open>lower\<close> maps the ASCII capitals to small letters and
  leaves every other byte alone; \<open>is_infix\<close> is the naive left-to-right search, shown equal
  to the library's contiguous-sublist relation \<open>sublist\<close>, which is the contract of
  \<open>in\<close>.
\<close>

section \<open>\<open>str.lower\<close>\<close>

definition lower_char :: "char \<Rightarrow> char" where
  "lower_char c =
     (if (65::nat) \<le> of_char c \<and> (of_char c :: nat) \<le> 90
      then char_of (of_char c + 32 :: nat) else c)"

definition lower :: "string \<Rightarrow> string" where
  "lower s = map lower_char s"

section \<open>\<open>s in t\<close> for strings\<close>

text \<open>
  \<open>is_infix p t\<close>: does \<open>p\<close> occur as a contiguous piece of \<open>t\<close>? Every position of
  \<open>t\<close> is tried from the left; the empty string occurs everywhere, also in the empty string.
\<close>

fun is_infix :: "string \<Rightarrow> string \<Rightarrow> bool" where
  "is_infix p [] = (p = [])"
| "is_infix p (c # cs) = (prefix p (c # cs) \<or> is_infix p cs)"

declare lower_char_def [text_simps] lower_def [text_simps]

section \<open>Lowercasing\<close>

lemma of_char_lower_char:
  "(of_char (lower_char c) :: nat) =
     (if 65 \<le> (of_char c :: nat) \<and> (of_char c :: nat) \<le> 90 then of_char c + 32 else of_char c)"
  by (simp add: lower_char_def)

lemma lower_char_idem [simp]: "lower_char (lower_char c) = lower_char c"
  by (auto simp: lower_char_def of_char_lower_char)

lemma lower_Nil [simp]: "lower [] = []"
  and lower_Cons [simp]: "lower (c # s) = lower_char c # lower s"
  and lower_append [simp]: "lower (s @ t) = lower s @ lower t"
  and length_lower [simp]: "length (lower s) = length s"
  by (simp_all add: lower_def)

lemma lower_idem [simp]: "lower (lower s) = lower s"
  by (induction s) simp_all



section \<open>Containment\<close>

lemma is_infix_sublist: "is_infix p t \<longleftrightarrow> sublist p t"
  by (induction t) (auto simp: sublist_Cons_right)

lemma is_infix_Nil [simp]: "is_infix [] t"
  by (simp add: is_infix_sublist)

lemma is_infix_refl [simp]: "is_infix t t"
  by (simp add: is_infix_sublist)

lemma is_infix_map:
  "is_infix p t \<Longrightarrow> is_infix (map f p) (map f t)"
  by (simp add: is_infix_sublist map_mono_sublist)

lemma is_infix_lower: "is_infix p t \<Longrightarrow> is_infix (lower p) (lower t)"
  unfolding lower_def by (rule is_infix_map)

lemma is_infix_trans: "is_infix p q \<Longrightarrow> is_infix q t \<Longrightarrow> is_infix p t"
  unfolding is_infix_sublist by (rule sublist_order.order.trans)

section \<open>Properties\<close>

text \<open>
  The containment test is Python's \<open>in\<close> on strings: \<open>p\<close> is found in \<open>t\<close>
  exactly when \<open>t\<close> splits as \<open>u @ p @ v\<close>; the naive left-to-right search is
  equivalent to this declarative contract.
\<close>

theorem is_infix_append_iff: "is_infix p t \<longleftrightarrow> (\<exists>u v. t = u @ p @ v)"
  by (simp add: is_infix_sublist sublist_def)



end
