(* ===== verification/Csv.thy ===== *)
theory Csv
  imports Prelude
begin

text \<open>
  \<open>pd.read_csv\<close> with its default options, as \<open>load_movies\<close> calls it
  (\<^verbatim>\<open>src/main.py\<close>, line 33). The file is split into records and fields by the
  state machine of pandas' C tokenizer (\<open>tokenize_bytes\<close>: delimiter \<open>,\<close>, quote
  character \<open>"\<close> with doubled quotes inside quoted fields, newline as record terminator,
  lines holding only blanks skipped). A quoted field may hold delimiters and newlines; a
  file ending inside a quoted field raises \<open>ParserError\<close>. The first record names the
  columns; a later record with more fields than the header raises \<open>ParserError\<close>, one
  with fewer is padded with missing cells. A cell whose text is one of pandas' default NA
  markers (the empty string, \<open>NA\<close>, \<open>N/A\<close>, \<open>NULL\<close>, \<open>None\<close>, \<open>nan\<close>, ...) is
  missing. Each column then gets a type: integers if every cell is an integer literal and
  none is missing, floats if every present cell is a number (missing cells are NaN),
  booleans if every present cell is \<open>True\<close> or \<open>False\<close> in one of pandas' spellings,
  strings otherwise.
\<close>

section \<open>Tokenizer\<close>

datatype tok_state =
    START_RECORD | START_FIELD | IN_FIELD | IN_QUOTED_FIELD | QUOTE_IN_QUOTED_FIELD
  | WHITESPACE_LINE

definition is_blank :: "char \<Rightarrow> bool" where
  "is_blank c \<longleftrightarrow> c = CHR '' '' \<or> c = CHR 0x09"

text \<open>
  \<open>tokenize_bytes st field row rows s\<close>: the state, the field being read and the fields of the
  record being read (both reversed), the records read (reversed) and the rest of the input.
  Where the C code falls through to another state or backtracks over a blank line's
  prefix, the same character is read again in the new state; that is why the recursion is
  not structural, and its measure counts these states once more.
\<close>

function tokenize_bytes ::
  "tok_state \<Rightarrow> string \<Rightarrow> string list \<Rightarrow> string list list \<Rightarrow> string \<Rightarrow> string list list res"
where
  "tokenize_bytes START_RECORD f row rows [] = Inr (rev rows)"
| "tokenize_bytes START_RECORD f row rows (c # cs) =
     (if c = CHR 0x0A then tokenize_bytes START_RECORD [] [] rows cs
      else if is_blank c then tokenize_bytes WHITESPACE_LINE [c] [] rows cs
      else tokenize_bytes START_FIELD [] [] rows (c # cs))"
| "tokenize_bytes WHITESPACE_LINE f row rows [] = Inr (rev rows)"
| "tokenize_bytes WHITESPACE_LINE f row rows (c # cs) =
     (if c = CHR 0x0A then tokenize_bytes START_RECORD [] [] rows cs
      else if is_blank c then tokenize_bytes WHITESPACE_LINE (c # f) row rows cs
      else tokenize_bytes IN_FIELD f row rows (c # cs))"
| "tokenize_bytes START_FIELD f row rows [] = Inr (rev (rev (rev f # row) # rows))"
| "tokenize_bytes START_FIELD f row rows (c # cs) =
     (if c = CHR 0x0A then tokenize_bytes START_RECORD [] [] (rev (rev f # row) # rows) cs
      else if c = CHR ''\"'' then tokenize_bytes IN_QUOTED_FIELD [] row rows cs
      else if c = CHR '','' then tokenize_bytes START_FIELD [] (rev f # row) rows cs
      else tokenize_bytes IN_FIELD [c] row rows cs)"
| "tokenize_bytes IN_FIELD f row rows [] = Inr (rev (rev (rev f # row) # rows))"
| "tokenize_bytes IN_FIELD f row rows (c # cs) =
     (if c = CHR 0x0A then tokenize_bytes START_RECORD [] [] (rev (rev f # row) # rows) cs
      else if c = CHR '','' then tokenize_bytes START_FIELD [] (rev f # row) rows cs
      else tokenize_bytes IN_FIELD (c # f) row rows cs)"
| "tokenize_bytes IN_QUOTED_FIELD f row rows [] = Inl ParserError"
| "tokenize_bytes IN_QUOTED_FIELD f row rows (c # cs) =
     (if c = CHR ''\"'' then tokenize_bytes QUOTE_IN_QUOTED_FIELD f row rows cs
      else tokenize_bytes IN_QUOTED_FIELD (c # f) row rows cs)"
| "tokenize_bytes QUOTE_IN_QUOTED_FIELD f row rows [] = Inr (rev (rev (rev f # row) # rows))"
| "tokenize_bytes QUOTE_IN_QUOTED_FIELD f row rows (c # cs) =
     (if c = CHR ''\"'' then tokenize_bytes IN_QUOTED_FIELD (c # f) row rows cs
      else if c = CHR '','' then tokenize_bytes START_FIELD [] (rev f # row) rows cs
      else if c = CHR 0x0A then tokenize_bytes START_RECORD [] [] (rev (rev f # row) # rows) cs
      else tokenize_bytes IN_FIELD (c # f) row rows cs)"
  by pat_completeness auto

definition tokenize_csv :: "string \<Rightarrow> string list list res" where
  "tokenize_csv s = tokenize_bytes START_RECORD [] [] [] s"

section \<open>Cells\<close>

text \<open>pandas' default NA markers (\<open>STR_NA_VALUES\<close>).\<close>

definition na_values :: "string list" where
  "na_values =
     [[], ''#N/A'', ''#N/A N/A'', ''#NA'', ''-1.#IND'', ''-1.#QNAN'', ''-NaN'', ''-nan'',
      ''1.#IND'', ''1.#QNAN'', ''<NA>'', ''N/A'', ''NA'', ''NULL'', ''NaN'', ''None'', ''n/a'',
      ''nan'', ''null'']"

definition na_cell :: "string \<Rightarrow> string option" where
  "na_cell s = (if s \<in> set na_values then None else Some s)"

definition isdigit_ascii :: "char \<Rightarrow> bool" where
  "isdigit_ascii c \<longleftrightarrow> (48::nat) \<le> of_char c \<and> (of_char c :: nat) \<le> 57"

definition isspace_ascii :: "char \<Rightarrow> bool" where
  "isspace_ascii c \<longleftrightarrow> c \<in> {CHR '' '', CHR 0x09, CHR 0x0A, CHR 0x0B, CHR 0x0C, CHR 0x0D}"

definition strip :: "string \<Rightarrow> string" where
  "strip s = rev (dropWhile isspace_ascii (rev (dropWhile isspace_ascii s)))"

definition digits_value :: "string \<Rightarrow> nat" where
  "digits_value ds = foldl (\<lambda>n d. 10 * n + (of_char d - 48)) 0 ds"

definition sign_split :: "string \<Rightarrow> int \<times> string" where
  "sign_split s =
     (case s of
        c # r \<Rightarrow> (if c = CHR ''-'' then (-1, r) else if c = CHR ''+'' then (1, r) else (1, s))
      | [] \<Rightarrow> (1, []))"

text \<open>\<open>str_to_int64\<close>: blanks around, an optional sign, at least one digit.\<close>

definition parse_int :: "string \<Rightarrow> int option" where
  "parse_int s =
     (let (sg, ds) = sign_split (strip s)
      in if ds \<noteq> [] \<and> list_all isdigit_ascii ds then Some (sg * int (digits_value ds)) else None)"

text \<open>
  \<open>xstrtod\<close>: blanks around, an optional sign, digits with an optional fraction (at least
  one digit in all), an optional exponent.
\<close>

definition parse_exponent :: "string \<Rightarrow> int option" where
  "parse_exponent s =
     (case s of
        [] \<Rightarrow> Some 0
      | c # r \<Rightarrow>
          (if c = CHR ''e'' \<or> c = CHR ''E'' then
             (let (sg, ds) = sign_split r
              in if ds \<noteq> [] \<and> list_all isdigit_ascii ds then Some (sg * int (digits_value ds)) else None)
           else None))"

definition parse_float :: "string \<Rightarrow> rat option" where
  "parse_float s =
     (let (sg, r) = sign_split (strip s);
          ip = takeWhile isdigit_ascii r; r1 = dropWhile isdigit_ascii r;
          (fp, r2) = (case r1 of
                        c # r' \<Rightarrow> (if c = CHR ''.'' then (takeWhile isdigit_ascii r', dropWhile isdigit_ascii r')
                                  else ([], r1))
                      | [] \<Rightarrow> ([], []))
      in if ip = [] \<and> fp = [] then None
         else (case parse_exponent r2 of
                 None \<Rightarrow> None
               | Some e \<Rightarrow>
                   Some (of_int sg * (of_nat (digits_value ip)
                          + of_nat (digits_value fp) / 10 ^ length fp)
                         * (if 0 \<le> e then 10 ^ nat e else 1 / 10 ^ nat (- e)))))"

definition parse_bool :: "string \<Rightarrow> bool option" where
  "parse_bool s =
     (if s \<in> {''True'', ''TRUE'', ''true''} then Some True
      else if s \<in> {''False'', ''FALSE'', ''false''} then Some False else None)"

section \<open>Column types\<close>

definition infer_column :: "string option list \<Rightarrow> pyval list" where
  "infer_column cells =
     (let vals = [v. Some v \<leftarrow> cells] in
      if list_all (\<lambda>v. parse_int v \<noteq> None) vals then
        (if list_all (\<lambda>c. c \<noteq> None) cells
         then map (\<lambda>c. case c of None \<Rightarrow> PNaN | Some v \<Rightarrow> PInt (the (parse_int v))) cells
         else map (\<lambda>c. case c of None \<Rightarrow> PNaN | Some v \<Rightarrow> PFloat (of_int (the (parse_int v)))) cells)
      else if list_all (\<lambda>v. parse_float v \<noteq> None) vals then
        map (\<lambda>c. case c of None \<Rightarrow> PNaN | Some v \<Rightarrow> PFloat (the (parse_float v))) cells
      else if list_all (\<lambda>v. parse_bool v \<noteq> None) vals then
        map (\<lambda>c. case c of None \<Rightarrow> PNaN | Some v \<Rightarrow> PBool (the (parse_bool v))) cells
      else map (\<lambda>c. case c of None \<Rightarrow> PNaN | Some v \<Rightarrow> PStr v) cells)"

section \<open>\<open>read_csv\<close>\<close>

text \<open>A DataFrame: the column names of the header and one list of values per column.\<close>

record frame =
  fr_columns :: "string list"
  fr_data :: "pyval list list"
  fr_nrows :: nat

definition raw_cell :: "string list \<Rightarrow> nat \<Rightarrow> string option" where
  "raw_cell r j = (if j < length r then na_cell (r ! j) else None)"

definition read_csv :: "string \<Rightarrow> frame res" where
  "read_csv text =
     (case tokenize_csv text of
        Inl e \<Rightarrow> Inl e
      | Inr [] \<Rightarrow> Inl EmptyDataError
      | Inr (header # rows) \<Rightarrow>
          (if list_ex (\<lambda>r. length header < length r) rows then Inl ParserError
           else Inr \<lparr>fr_columns = header,
                     fr_data = map (\<lambda>j. infer_column (map (\<lambda>r. raw_cell r j) rows))
                                 [0..<length header],
                     fr_nrows = length rows\<rparr>))"

section \<open>Writing CSV\<close>

text \<open>
  The inverse direction, as Python's \<open>csv\<close> writer does it with \<open>QUOTE_ALL\<close> and
  newline-terminated records: every field in quotes, quotes inside doubled.
\<close>

definition quote_field :: "string \<Rightarrow> string" where
  "quote_field f =
     CHR ''\"'' # concat (map (\<lambda>c. if c = CHR ''\"'' then [c, c] else [c]) f) @ [CHR ''\"'']"

fun render_fields :: "string list \<Rightarrow> string" where
  "render_fields [] = []"
| "render_fields [f] = quote_field f"
| "render_fields (f # g # fs) = quote_field f @ CHR '','' # render_fields (g # fs)"

definition render_csv :: "string list list \<Rightarrow> string" where
  "render_csv rows = concat (map (\<lambda>r. render_fields r @ [CHR 0x0A]) rows)"

section \<open>Termination of the tokenizer\<close>

definition tok_measure :: "tok_state \<Rightarrow> string \<Rightarrow> nat" where
  "tok_measure st s =
     2 * length s + (if st = START_RECORD \<or> st = WHITESPACE_LINE then 1 else 0)"

termination tokenize_bytes
  by (relation "measure (\<lambda>(st, f, row, rows, s). tok_measure st s)")
    (simp_all add: tok_measure_def)

section \<open>Lemmas\<close>

lemma tokenize_quoted:
  "tokenize_bytes IN_QUOTED_FIELD acc row rows
     (concat (map (\<lambda>c. if c = CHR ''\"'' then [c, c] else [c]) f) @ CHR ''\"'' # rest) =
   tokenize_bytes QUOTE_IN_QUOTED_FIELD (rev f @ acc) row rows rest"
  by (induction f arbitrary: acc) auto

lemma tokenize_fields:
  "fs \<noteq> [] \<Longrightarrow>
   tokenize_bytes START_FIELD [] row rows (render_fields fs @ CHR 0x0A # rest) =
   tokenize_bytes START_RECORD [] [] ((rev row @ fs) # rows) rest"
proof (induction fs arbitrary: row rule: render_fields.induct)
  case 1
  then show ?case by simp
next
  case (2 f)
  then show ?case by (simp add: quote_field_def tokenize_quoted)
next
  case (3 f g fs)
  then show ?case by (simp add: quote_field_def tokenize_quoted)
qed

lemma render_fields_quote: "fs \<noteq> [] \<Longrightarrow> \<exists>s. render_fields fs = CHR ''\"'' # s"
  by (cases fs rule: render_fields.cases) (simp_all add: quote_field_def)

lemma tokenize_record:
  assumes "fs \<noteq> []"
  shows "tokenize_bytes START_RECORD [] [] rows (render_fields fs @ CHR 0x0A # rest) =
    tokenize_bytes START_RECORD [] [] (fs # rows) rest"
proof -
  from render_fields_quote [OF assms] obtain s where q: "render_fields fs = CHR ''\"'' # s" ..
  have "tokenize_bytes START_RECORD [] [] rows (render_fields fs @ CHR 0x0A # rest) =
      tokenize_bytes START_FIELD [] [] rows (render_fields fs @ CHR 0x0A # rest)"
    unfolding q by (simp only: append_Cons tokenize_bytes.simps(2)) (simp del: tokenize_bytes.simps add: is_blank_def)
  with tokenize_fields [OF assms, of "[]"] show ?thesis by simp
qed

lemma render_csv_Cons: "render_csv (r # rs) = render_fields r @ CHR 0x0A # render_csv rs"
  by (simp add: render_csv_def)





section \<open>Properties\<close>

text \<open>
  C5. Reading what the CSV writer wrote gives back the records, field for field: the
  tokenizer undoes the quoting of every field, whatever delimiters, quotes and newlines it
  holds (a record needs one field, since an empty line is skipped).
\<close>

theorem tokenize_render_csv:
  assumes "\<forall>r\<in>set rows. r \<noteq> []"
  shows "tokenize_csv (render_csv rows) = Inr rows"
proof -
  have "tokenize_bytes START_RECORD [] [] acc (render_csv rows) = Inr (rev acc @ rows)" for acc
    using assms
  proof (induction rows arbitrary: acc)
    case Nil
    then show ?case by (simp add: render_csv_def)
  next
    case (Cons r rs)
    then show ?case by (simp add: render_csv_Cons tokenize_record)
  qed
  then show ?thesis by (simp add: tokenize_csv_def)
qed

theorem tokenize_render_csv_witness:
  "tokenize_csv (render_csv [[''id'', ''category''], [''1'', ''Action, \"Comedy\"'']]) =
   Inr [[''id'', ''category''], [''1'', ''Action, \"Comedy\"'']]"
  by (rule tokenize_render_csv) simp



end
