(* ===== verification/Catalog.thy ===== *)
theory Catalog
  imports Text Csv
begin

text \<open>
  The catalog store: \<open>load_movies\<close> (\<^verbatim>\<open>src/main.py\<close>, lines 31--39) and the
  module-level list \<open>movies_list\<close> it fills at start-up (line 42). The file is read by
  \<open>read_csv\<close> of theory \<open>Csv\<close>; the six columns \<open>show_id\<close>, \<open>title\<close>,
  \<open>release_year\<close>, \<open>listed_in\<close>, \<open>rating\<close>, \<open>description\<close> are selected by name
  (\<open>KeyError\<close> when one is missing), renamed to \<open>id\<close>, \<open>title\<close>, \<open>year\<close>,
  \<open>category\<close>, \<open>rating\<close>, \<open>overview\<close>, every NaN becomes the empty string
  (\<open>fillna('')\<close>), and every row becomes the dictionary of a movie
  (\<open>to_dict(orient='records')\<close>), in file order. A cell keeps the type pandas gave its
  column: the well-formedness invariant \<open>catalog_ok\<close> (no NaN, every category a string)
  holds when the \<open>listed_in\<close> column is text, which \<open>text_column\<close> states of the file.
\<close>

section \<open>Records\<close>

text \<open>The dictionary of one movie, with the keys of the renamed columns.\<close>

record movie =
  movie_id :: pyval
  title :: pyval
  year :: pyval
  category :: pyval
  rating :: pyval
  overview :: pyval

section \<open>\<open>load_movies\<close>\<close>

definition movie_columns :: "string list" where
  "movie_columns = [''show_id'', ''title'', ''release_year'', ''listed_in'', ''rating'', ''description'']"

text \<open>The position of the first column with a name (pandas renames later duplicates).\<close>

fun col_pos :: "string list \<Rightarrow> string \<Rightarrow> nat" where
  "col_pos [] n = 0"
| "col_pos (c # cs) n = (if c = n then 0 else Suc (col_pos cs n))"

definition column_of :: "frame \<Rightarrow> string \<Rightarrow> pyval list" where
  "column_of df n = fr_data df ! col_pos (fr_columns df) n"

text \<open>\<open>df[[...]]\<close>: the named columns, or \<open>KeyError\<close> if the frame lacks one.\<close>

definition select_columns :: "frame \<Rightarrow> string list \<Rightarrow> pyval list list res" where
  "select_columns df names =
     (if list_all (\<lambda>n. n \<in> set (fr_columns df)) names then Inr (map (column_of df) names)
      else Inl KeyError)"

text \<open>\<open>fillna('')\<close>: every NaN cell becomes the empty string.\<close>

fun fillna :: "pyval \<Rightarrow> pyval" where
  "fillna PNaN = PStr []"
| "fillna v = v"

text \<open>
  \<open>df.columns = ['id', 'title', 'year', 'category', 'rating', 'overview']\<close> and
  \<open>to_dict(orient='records')\<close>: row \<open>i\<close> of the six columns as a dictionary.
\<close>

definition to_records :: "nat \<Rightarrow> pyval list list \<Rightarrow> movie list" where
  "to_records n cols =
     map (\<lambda>i. \<lparr>movie_id = cols ! 0 ! i, title = cols ! 1 ! i, year = cols ! 2 ! i,
               category = cols ! 3 ! i, rating = cols ! 4 ! i, overview = cols ! 5 ! i\<rparr>)
       [0..<n]"

definition load_movies :: "string \<Rightarrow> movie list res" where
  "load_movies text =
     (case read_csv text of
        Inl e \<Rightarrow> Inl e
      | Inr df \<Rightarrow>
          (case select_columns df movie_columns of
             Inl e \<Rightarrow> Inl e
           | Inr cols \<Rightarrow> Inr (to_records (fr_nrows df) (map (map fillna) cols))))"

section \<open>Well-formed catalogs\<close>

fun not_nan :: "pyval \<Rightarrow> bool" where
  "not_nan PNaN = False"
| "not_nan _ = True"

definition movie_no_nan :: "movie \<Rightarrow> bool" where
  "movie_no_nan m \<longleftrightarrow>
     not_nan (movie_id m) \<and> not_nan (title m) \<and> not_nan (year m) \<and> not_nan (category m)
     \<and> not_nan (rating m) \<and> not_nan (overview m)"

definition wf_movie :: "movie \<Rightarrow> bool" where
  "wf_movie m \<longleftrightarrow> is_str (category m) \<and> movie_no_nan m"

definition catalog_ok :: "movie list \<Rightarrow> bool" where
  "catalog_ok ms \<longleftrightarrow> list_all wf_movie ms"

text \<open>A column of the file holds text: every cell of it is a string or missing.\<close>

definition text_column :: "string \<Rightarrow> string \<Rightarrow> bool" where
  "text_column text n =
     (case read_csv text of
        Inl _ \<Rightarrow> True
      | Inr df \<Rightarrow> list_all (\<lambda>v. is_str v \<or> v = PNaN) (column_of df n))"

text \<open>The category string of a well-formed record (the empty string otherwise).\<close>

fun str_of :: "pyval \<Rightarrow> string" where
  "str_of (PStr s) = s"
| "str_of _ = []"

section \<open>Lemmas\<close>

lemma is_str_iff: "is_str v \<longleftrightarrow> v = PStr (str_of v)"
  by (cases v) auto

lemma not_nan_fillna [simp]: "not_nan (fillna v) = True"
  by (cases v) auto

lemma is_str_fillna: "is_str v \<or> v = PNaN \<Longrightarrow> is_str (fillna v)"
  by (cases v) auto

lemma catalog_ok_Nil [simp]: "catalog_ok []"
  and catalog_ok_Cons [simp]: "catalog_ok (m # ms) \<longleftrightarrow> wf_movie m \<and> catalog_ok ms"
  and catalog_ok_append [simp]: "catalog_ok (ms @ ns) \<longleftrightarrow> catalog_ok ms \<and> catalog_ok ns"
  by (simp_all add: catalog_ok_def)

lemma catalog_ok_no_nan: "catalog_ok ms \<Longrightarrow> list_all movie_no_nan ms"
  by (simp add: catalog_ok_def wf_movie_def list_all_iff)

lemma catalog_ok_category:
  "catalog_ok ms \<Longrightarrow> m \<in> set ms \<Longrightarrow> category m = PStr (str_of (category m))"
  by (auto simp: catalog_ok_def wf_movie_def list_all_iff is_str_iff)

lemma catalog_ok_subseq: "catalog_ok ms \<Longrightarrow> subseq ns ms \<Longrightarrow> catalog_ok ns"
  by (auto simp: catalog_ok_def list_all_iff dest: list_emb_set)

lemma length_infer_column [simp]: "length (infer_column cells) = length cells"
  by (simp add: infer_column_def Let_def)

lemma read_csv_Inr:
  assumes "read_csv text = Inr df"
  shows "length (fr_data df) = length (fr_columns df)
    \<and> (\<forall>c\<in>set (fr_data df). length c = fr_nrows df)"
  using assms by (auto simp: read_csv_def split: sum.splits list.splits if_splits)

lemma col_pos_less: "n \<in> set cs \<Longrightarrow> col_pos cs n < length cs"
  by (induction cs) auto

lemma select_columns_Inr:
  assumes "read_csv text = Inr df" and "select_columns df names = Inr cols"
  shows "cols = map (column_of df) names \<and> (\<forall>n\<in>set names. length (column_of df n) = fr_nrows df)"
proof -
  from assms(2) have cols: "cols = map (column_of df) names"
    and names: "\<forall>n\<in>set names. n \<in> set (fr_columns df)"
    by (auto simp: select_columns_def list_all_iff split: if_splits)
  have "length (column_of df n) = fr_nrows df" if "n \<in> set names" for n
  proof -
    from names that have "col_pos (fr_columns df) n < length (fr_data df)"
      using read_csv_Inr [OF assms(1)] by (simp add: col_pos_less)
    with read_csv_Inr [OF assms(1)] show ?thesis by (simp add: column_of_def)
  qed
  with cols show ?thesis by blast
qed

lemma load_movies_Inr:
  assumes "load_movies text = Inr ms"
  obtains df cols where "read_csv text = Inr df" and "select_columns df movie_columns = Inr cols"
    and "ms = to_records (fr_nrows df) (map (map fillna) cols)"
  using assms by (auto simp: load_movies_def split: sum.splits)

lemma load_movies_cells:
  assumes "load_movies text = Inr ms"
  obtains df where "read_csv text = Inr df" and "length ms = fr_nrows df"
    and "\<forall>i<length ms. ms ! i =
      \<lparr>movie_id = fillna (column_of df ''show_id'' ! i), title = fillna (column_of df ''title'' ! i),
       year = fillna (column_of df ''release_year'' ! i),
       category = fillna (column_of df ''listed_in'' ! i),
       rating = fillna (column_of df ''rating'' ! i),
       overview = fillna (column_of df ''description'' ! i)\<rparr>"
proof -
  from assms obtain df cols where df: "read_csv text = Inr df"
    and sel: "select_columns df movie_columns = Inr cols"
    and ms: "ms = to_records (fr_nrows df) (map (map fillna) cols)"
    by (rule load_movies_Inr)
  from select_columns_Inr [OF df sel]
  have cols: "cols = map (column_of df) movie_columns"
    and len: "\<forall>n\<in>set movie_columns. length (column_of df n) = fr_nrows df"
    by simp_all
  have "length ms = fr_nrows df" by (simp add: ms to_records_def)
  moreover have "\<forall>i<length ms. ms ! i =
      \<lparr>movie_id = fillna (column_of df ''show_id'' ! i), title = fillna (column_of df ''title'' ! i),
       year = fillna (column_of df ''release_year'' ! i),
       category = fillna (column_of df ''listed_in'' ! i),
       rating = fillna (column_of df ''rating'' ! i),
       overview = fillna (column_of df ''description'' ! i)\<rparr>"
    using len by (simp add: ms cols to_records_def movie_columns_def)
  ultimately show ?thesis using df that by blast
qed

lemma load_movies_no_nan:
  assumes "load_movies text = Inr ms"
  shows "list_all movie_no_nan ms"
  using assms
  by (rule load_movies_cells) (simp add: list_all_length movie_no_nan_def)

lemma load_movies_ok:
  assumes "load_movies text = Inr ms" and "text_column text ''listed_in''"
  shows "catalog_ok ms"
proof -
  from assms(1) obtain df where df: "read_csv text = Inr df" and len: "length ms = fr_nrows df"
    and cells: "\<forall>i<length ms. category (ms ! i) = fillna (column_of df ''listed_in'' ! i)"
    by (rule load_movies_cells) simp
  from assms(1) obtain df' cols where df': "read_csv text = Inr df'"
    and sel: "select_columns df' movie_columns = Inr cols"
    by (rule load_movies_Inr)
  from df df' select_columns_Inr [OF df' sel]
  have clen: "length (column_of df ''listed_in'') = fr_nrows df"
    by (simp add: movie_columns_def)
  from assms(2) df have textual: "list_all (\<lambda>v. is_str v \<or> v = PNaN) (column_of df ''listed_in'')"
    by (simp add: text_column_def)
  have "is_str (category (ms ! i))" if "i < length ms" for i
    using textual clen len cells that by (simp add: is_str_fillna list_all_length)
  with load_movies_no_nan [OF assms(1)] show ?thesis
    by (auto simp: catalog_ok_def wf_movie_def list_all_length)
qed

section \<open>Properties\<close>

text \<open>
  C4. \<open>load_movies\<close> keeps the rows of the file and their order, and the record built
  from row \<open>i\<close> holds the cells of row \<open>i\<close> of the columns \<open>show_id\<close>, \<open>title\<close>,
  \<open>release_year\<close>, \<open>listed_in\<close>, \<open>rating\<close> and \<open>description\<close>, typed as pandas
  typed their columns, under the new keys, a missing cell read as the empty string.
\<close>

theorem load_movies_nth:
  assumes "read_csv text = Inr df" and "load_movies text = Inr ms" and "i < length ms"
  shows "length ms = fr_nrows df \<and> ms ! i =
    \<lparr>movie_id = fillna (column_of df ''show_id'' ! i), title = fillna (column_of df ''title'' ! i),
     year = fillna (column_of df ''release_year'' ! i),
     category = fillna (column_of df ''listed_in'' ! i),
     rating = fillna (column_of df ''rating'' ! i),
     overview = fillna (column_of df ''description'' ! i)\<rparr>"
  using assms(2)
proof (rule load_movies_cells)
  fix df'
  assume "read_csv text = Inr df'" and "length ms = fr_nrows df'"
    and "\<forall>i<length ms. ms ! i =
      \<lparr>movie_id = fillna (column_of df' ''show_id'' ! i), title = fillna (column_of df' ''title'' ! i),
       year = fillna (column_of df' ''release_year'' ! i),
       category = fillna (column_of df' ''listed_in'' ! i),
       rating = fillna (column_of df' ''rating'' ! i),
       overview = fillna (column_of df' ''description'' ! i)\<rparr>"
  with assms(1,3) show ?thesis by simp
qed

text \<open>
  C19. A file that lacks one of the six columns the program selects makes the selection
  \<open>df[[...]]\<close> raise \<open>KeyError\<close>: \<open>load_movies\<close> fails, whatever the rows hold.
\<close>

theorem load_movies_missing_column:
  assumes "read_csv text = Inr df" and "n \<in> set movie_columns" and "n \<notin> set (fr_columns df)"
  shows "load_movies text = Inl KeyError"
  using assms by (auto simp: load_movies_def select_columns_def list_all_iff)

end
