(* ===== verification/Tokenize.thy ===== *)
theory Tokenize
  imports Prelude
begin

text \<open>
  A tokenizer that meets the contract the specification gives for \<open>word_tokenize\<close>
  (section 4.2: split lowercase text into word tokens at whitespace and punctuation
  boundaries). NLTK's tokenizer is library code; this one stands in for it where a closed
  instance is needed. As NLTK does, it keeps a punctuation mark as a token of its own
  rather than dropping it. It never raises: \<open>always word_tokenize\<close> is the tokenizer
  of an installation whose tokenizer data is present. The chatbot's theorems hold for
  every tokenizer; this one is used for the concrete scenarios only.
\<close>

definition is_space :: "char \<Rightarrow> bool" where
  "is_space c \<longleftrightarrow> c \<in> {CHR '' '', CHR 0x09, CHR 0x0A, CHR 0x0D}"

definition is_punct :: "char \<Rightarrow> bool" where
  "is_punct c \<longleftrightarrow> c \<in> set ''.,;:!?()&''"

text \<open>The word being read is kept reversed in \<open>cur\<close>.\<close>

definition flush :: "string \<Rightarrow> string list" where
  "flush cur = (if cur = [] then [] else [rev cur])"

fun tok_go :: "string \<Rightarrow> string \<Rightarrow> string list" where
  "tok_go cur [] = flush cur"
| "tok_go cur (c # cs) =
     (if is_space c then flush cur @ tok_go [] cs
      else if is_punct c then flush cur @ [c] # tok_go [] cs
      else tok_go (c # cur) cs)"

definition word_tokenize :: "string \<Rightarrow> string list" where
  "word_tokenize s = tok_go [] s"

lemma tok_go_nonempty: "t \<in> set (tok_go cur s) \<Longrightarrow> t \<noteq> []"
  by (induction cur s rule: tok_go.induct) (auto simp: flush_def split: if_splits)

lemma tok_go_concat:
  "concat (tok_go cur s) = rev cur @ filter (\<lambda>c. \<not> is_space c) s"
  by (induction cur s rule: tok_go.induct) (auto simp: flush_def is_punct_def is_space_def)

lemma word_tokenize_concat:
  "concat (word_tokenize s) = filter (\<lambda>c. \<not> is_space c) s"
  by (simp add: word_tokenize_def tok_go_concat)

lemma word_tokenize_blank:
  assumes "\<forall>c\<in>set s. is_space c"
  shows "word_tokenize s = []"
proof -
  have "concat (word_tokenize s) = []"
    using assms by (simp add: word_tokenize_concat)
  moreover have "\<forall>t\<in>set (word_tokenize s). t \<noteq> []"
    by (auto simp: word_tokenize_def dest: tok_go_nonempty)
  ultimately show ?thesis by simp
qed

end
