(* ===== verification/Wordnet.thy ===== *)
theory Wordnet
  imports Text
begin

text \<open>
  \<open>wordnet.synsets(word)\<close> as \<open>get_synonyms\<close> (\<^verbatim>\<open>src/main.py\<close>, line 48) calls it:
  NLTK's WordNet reader lowercases the word, and for each part of speech in the order
  noun, verb, adjective, adverb finds its base forms with the lemmatiser \<open>_morphy\<close> and
  lists the synsets the lemma index holds for each base form. \<open>_morphy\<close> first consults
  the exception list of the part of speech (irregular forms such as ``geese''); otherwise
  it strips the detachment suffixes of the part of speech once and keeps the candidates
  the index knows, and if there are none it keeps applying the rules until a round finds
  some or no candidate is left. That last loop is not structural: a round can produce
  more candidates than it consumed, and the rule \<open>men \<rightarrow> man\<close> does not shorten a
  word; it ends because every candidate is smaller than the one it came from in the
  measure \<open>form_measure\<close> (twice the length, plus one for a word ending in ``men'').

  The lexicographer data is a parameter \<open>wn_db\<close>: the lemma index
  (\<open>_lemma_pos_offset_map\<close>: for a lemma and a part of speech the synset offsets, or
  \<open>None\<close> when the lemma has no entry for it), the exception lists and the lemma names of
  the synset at an offset.
\<close>

datatype pos = NOUN | VERB | ADJ | ADV

record wn_db =
  lemma_pos_offset_map :: "string \<Rightarrow> pos \<Rightarrow> nat list option"
  exception_map :: "pos \<Rightarrow> string \<Rightarrow> string list option"
  synset_lemmas :: "pos \<Rightarrow> nat \<Rightarrow> synset"

definition POS_LIST :: "pos list" where
  "POS_LIST = [NOUN, VERB, ADJ, ADV]"

text \<open>\<open>MORPHOLOGICAL_SUBSTITUTIONS\<close>, in NLTK's order.\<close>

fun substitutions :: "pos \<Rightarrow> (string \<times> string) list" where
  "substitutions NOUN =
     [(''s'', ''''), (''ses'', ''s''), (''ves'', ''f''), (''xes'', ''x''), (''zes'', ''z''),
      (''ches'', ''ch''), (''shes'', ''sh''), (''men'', ''man''), (''ies'', ''y'')]"
| "substitutions VERB =
     [(''s'', ''''), (''ies'', ''y''), (''es'', ''e''), (''es'', ''''), (''ed'', ''e''),
      (''ed'', ''''), (''ing'', ''e''), (''ing'', '''')]"
| "substitutions ADJ = [(''er'', ''''), (''est'', ''''), (''er'', ''e''), (''est'', ''e'')]"
| "substitutions ADV = []"

text \<open>
  \<open>apply_rules\<close>: \<open>[form[:-len(old)] + new for form in forms for old, new in
  substitutions if form.endswith(old)]\<close>.
\<close>

definition apply_rules :: "pos \<Rightarrow> string list \<Rightarrow> string list" where
  "apply_rules p forms =
     concat (map (\<lambda>form. concat (map (\<lambda>(old, new).
        if suffix old form then [take (length form - length old) form @ new] else [])
       (substitutions p))) forms)"

text \<open>
  \<open>filter_forms\<close>: the forms the index knows for the part of speech, each once, in
  order of first occurrence (\<open>form in index and pos in index[form]\<close>; the second test
  implies the first).
\<close>

fun filter_forms_go :: "wn_db \<Rightarrow> pos \<Rightarrow> string set \<Rightarrow> string list \<Rightarrow> string list" where
  "filter_forms_go db p seen [] = []"
| "filter_forms_go db p seen (form # forms) =
     (if lemma_pos_offset_map db form p \<noteq> None \<and> form \<notin> seen
      then form # filter_forms_go db p (insert form seen) forms
      else filter_forms_go db p seen forms)"

definition filter_forms :: "wn_db \<Rightarrow> pos \<Rightarrow> string list \<Rightarrow> string list" where
  "filter_forms db p forms = filter_forms_go db p {} forms"

text \<open>The measure that decreases from a candidate to every candidate derived from it.\<close>

definition form_measure :: "string \<Rightarrow> nat" where
  "form_measure form = 2 * length form + (if suffix ''men'' form then 1 else 0)"

definition forms_measure :: "string list \<Rightarrow> nat" where
  "forms_measure forms = (if forms = [] then 0 else Suc (Max (form_measure ` set forms)))"

text \<open>Step 3 of \<open>_morphy\<close>: \<open>while forms: forms = apply_rules(forms); ...\<close>\<close>

function morphy_loop :: "wn_db \<Rightarrow> pos \<Rightarrow> string list \<Rightarrow> string list" where
  "morphy_loop db p forms =
     (if forms = [] then []
      else (let forms' = apply_rules p forms; results = filter_forms db p forms'
            in if results \<noteq> [] then results else morphy_loop db p forms'))"
  by pat_completeness auto

text \<open>\<open>_morphy(form, pos)\<close>: steps 0 to 3.\<close>

definition morphy :: "wn_db \<Rightarrow> pos \<Rightarrow> string \<Rightarrow> string list" where
  "morphy db p form =
     (case exception_map db p form of
        Some exc \<Rightarrow> filter_forms db p (form # exc)
      | None \<Rightarrow>
          (let forms = apply_rules p [form]; results = filter_forms db p (form # forms)
           in if results \<noteq> [] then results else morphy_loop db p forms))"

definition offsets :: "wn_db \<Rightarrow> string \<Rightarrow> pos \<Rightarrow> nat list" where
  "offsets db form p = (case lemma_pos_offset_map db form p of None \<Rightarrow> [] | Some offs \<Rightarrow> offs)"

text \<open>\<open>synsets(lemma)\<close> with \<open>pos=None\<close>: every part of speech of \<open>POS_LIST\<close>.\<close>

definition synsets :: "wn_db \<Rightarrow> corpus" where
  "synsets db word =
     (let lemma = lower word in
      concat (map (\<lambda>p. concat (map (\<lambda>form. map (synset_lemmas db p) (offsets db form p))
        (morphy db p lemma))) POS_LIST))"

section \<open>Termination of the rule loop\<close>

text \<open>
  Every substitution shortens the word, except \<open>men \<rightarrow> man\<close>, which keeps its length and
  removes the suffix ``men''.
\<close>

lemma substitution_shrinks:
  "(old, new) \<in> set (substitutions p) \<Longrightarrow>
     length new < length old \<or> (old = ''men'' \<and> new = ''man'')"
  by (cases p) auto

lemma form_measure_rule:
  assumes "(old, new) \<in> set (substitutions p)" and "suffix old form"
  shows "form_measure (take (length form - length old) form @ new) < form_measure form"
proof -
  from assms(2) have len: "length old \<le> length form" by (rule suffix_length_le)
  from substitution_shrinks [OF assms(1)] show ?thesis
  proof
    assume "length new < length old"
    with len show ?thesis by (auto simp: form_measure_def)
  next
    assume "old = ''men'' \<and> new = ''man''"
    with len assms(2) show ?thesis by (auto simp: form_measure_def suffix_def)
  qed
qed

lemma apply_rules_smaller:
  "g \<in> set (apply_rules p forms) \<Longrightarrow> \<exists>f\<in>set forms. form_measure g < form_measure f"
  by (fastforce simp: apply_rules_def split: if_splits intro: form_measure_rule)

lemma forms_measure_apply_rules:
  assumes "forms \<noteq> []"
  shows "forms_measure (apply_rules p forms) < forms_measure forms"
proof (cases "apply_rules p forms = []")
  case True
  with assms show ?thesis by (simp add: forms_measure_def)
next
  case False
  have "form_measure g < Max (form_measure ` set forms)" if "g \<in> set (apply_rules p forms)" for g
  proof -
    from apply_rules_smaller [OF that] obtain f where "f \<in> set forms"
      and "form_measure g < form_measure f" by blast
    then show ?thesis by (meson Max_ge finite_imageI finite_set image_eqI order_less_le_trans)
  qed
  with False assms show ?thesis by (simp add: forms_measure_def)
qed

termination morphy_loop
  by (relation "measure (\<lambda>(db, p, forms). forms_measure forms)")
    (auto intro: forms_measure_apply_rules)

declare morphy_loop.simps [simp del]

section \<open>Lemmas\<close>

lemma filter_forms_go_index:
  "form \<in> set (filter_forms_go db p seen forms) \<Longrightarrow> lemma_pos_offset_map db form p \<noteq> None"
  by (induction db p seen forms rule: filter_forms_go.induct) (auto split: if_splits)

lemma filter_forms_index:
  "form \<in> set (filter_forms db p forms) \<Longrightarrow> lemma_pos_offset_map db form p \<noteq> None"
  unfolding filter_forms_def by (rule filter_forms_go_index)

lemma morphy_loop_index:
  "form \<in> set (morphy_loop db p forms) \<Longrightarrow> lemma_pos_offset_map db form p \<noteq> None"
proof (induction db p forms rule: morphy_loop.induct)
  case (1 db p forms)
  then show ?case
    by (subst (asm) morphy_loop.simps) (auto simp: Let_def split: if_splits dest: filter_forms_index)
qed

lemma morphy_index: "form \<in> set (morphy db p w) \<Longrightarrow> lemma_pos_offset_map db form p \<noteq> None"
  by (auto simp: morphy_def Let_def split: option.splits if_splits
      dest: filter_forms_index morphy_loop_index)

section \<open>Properties\<close>

text \<open>
  C8. The loop of \<open>_morphy\<close> ends: applying the detachment rules of a part of speech
  over and over to any list of candidate forms reaches the empty list, so
  \<open>while forms:\<close> stops even when no round finds a form the index knows.
\<close>

theorem apply_rules_terminates: "\<exists>n. (apply_rules p ^^ n) forms = []"
proof (induction "forms_measure forms" arbitrary: forms rule: less_induct)
  case less
  show ?case
  proof (cases "forms = []")
    case True
    then show ?thesis by (intro exI [of _ 0]) simp
  next
    case False
    then have "forms_measure (apply_rules p forms) < forms_measure forms"
      by (rule forms_measure_apply_rules)
    with less obtain n where "(apply_rules p ^^ n) (apply_rules p forms) = []" by blast
    then show ?thesis by (intro exI [of _ "Suc n"]) (simp add: funpow_Suc_right del: funpow.simps)
  qed
qed

text \<open>
  C7. The lemmatiser only returns base forms the index knows for the part of speech,
  and a word the index knows that is not an irregular form is its own first base form:
  \<open>synsets\<close> looks up the word itself before any form derived from it.
\<close>

theorem morphy_base_forms:
  "(\<forall>f\<in>set (morphy db p w). lemma_pos_offset_map db f p \<noteq> None) \<and>
   (lemma_pos_offset_map db w p \<noteq> None \<longrightarrow> exception_map db p w = None \<longrightarrow>
      morphy db p w \<noteq> [] \<and> hd (morphy db p w) = w)"
proof -
  have "lemma_pos_offset_map db w p \<noteq> None \<Longrightarrow> exception_map db p w = None \<Longrightarrow>
      morphy db p w \<noteq> [] \<and> hd (morphy db p w) = w"
    by (simp add: morphy_def filter_forms_def Let_def)
  with morphy_index show ?thesis by blast
qed

theorem morphy_base_forms_witness:
  "morphy \<lparr>lemma_pos_offset_map = (\<lambda>f p. if f = ''comedy'' \<and> p = NOUN then Some [7] else None),
      exception_map = (\<lambda>_ _. None), synset_lemmas = (\<lambda>_ _. [])\<rparr> NOUN ''comedy'' \<noteq> []
   \<and> hd (morphy \<lparr>lemma_pos_offset_map = (\<lambda>f p. if f = ''comedy'' \<and> p = NOUN then Some [7] else None),
      exception_map = (\<lambda>_ _. None), synset_lemmas = (\<lambda>_ _. [])\<rparr> NOUN ''comedy'') = ''comedy''"
  using morphy_base_forms [of "\<lparr>lemma_pos_offset_map = (\<lambda>f p. if f = ''comedy'' \<and> p = NOUN then Some [7] else None),
      exception_map = (\<lambda>_ _. None), synset_lemmas = (\<lambda>_ _. [])\<rparr>" NOUN "''comedy''"]
  by simp

end
