(* ===== verification/Nltk.thy ===== *)
theory Nltk
  imports Wordnet
begin

text \<open>
  The NLTK data set-up of \<^verbatim>\<open>src/main.py\<close> (lines 20--27) and the two NLTK capabilities
  the chatbot calls, \<open>word_tokenize\<close> and \<open>wordnet.synsets\<close> (imported at lines 17--18).
  NLTK looks its data packages up in the directories of \<open>nltk.data.path\<close>; the program
  appends one directory to that list and then calls \<open>nltk.download\<close> for the packages
  \<open>punkt\<close> and \<open>wordnet\<close>. A download that fails (no network, unknown package) prints a
  message and returns \<open>False\<close>; it never raises. A capability whose package cannot be
  found raises \<open>LookupError\<close> when it is called, that is at request time.

  The state NLTK keeps is \<open>nltk_env\<close>: the search path and the packages downloaded by
  this process. What the machine provides is a parameter \<open>nltk_world\<close>: the packages
  already installed in each directory, which downloads succeed, the tokenizer table of the
  installed NLTK, the WordNet data (read through \<open>synsets\<close> of \<open>Wordnet\<close>), and the name of the package the installed
  \<open>word_tokenize\<close> loads: \<open>punkt\<close> up to NLTK 3.8.1, \<open>punkt_tab\<close> from NLTK 3.8.2
  on.
\<close>

record nltk_env =
  data_path :: "string list"
  downloaded :: "string set"

record nltk_world =
  w_installed :: "string \<Rightarrow> string set"
  w_net :: "string \<Rightarrow> bool"
  w_punkt :: string
  w_tok :: "string \<Rightarrow> string list"
  w_wordnet :: wn_db

text \<open>Is a package found by the loader: downloaded, or installed in a directory of the path?\<close>

definition available :: "nltk_world \<Rightarrow> nltk_env \<Rightarrow> string \<Rightarrow> bool" where
  "available w env r \<longleftrightarrow> r \<in> downloaded env \<or> (\<exists>d\<in>set (data_path env). r \<in> w_installed w d)"

text \<open>\<open>nltk.download(r)\<close>: installs \<open>r\<close> when the download succeeds, and never raises.\<close>

definition nltk_download :: "nltk_world \<Rightarrow> string \<Rightarrow> nltk_env \<Rightarrow> nltk_env" where
  "nltk_download w r env = (if w_net w r then env\<lparr>downloaded := insert r (downloaded env)\<rparr> else env)"

definition home_nltk_data :: string where
  "home_nltk_data = ''/home/serhoyos/nltk_data''"

text \<open>Lines 22, 26 and 27, in this order.\<close>

definition nltk_setup :: "nltk_world \<Rightarrow> nltk_env \<Rightarrow> nltk_env" where
  "nltk_setup w env =
     (let env1 = env\<lparr>data_path := data_path env @ [home_nltk_data]\<rparr>;
          env2 = nltk_download w ''punkt'' env1
      in nltk_download w ''wordnet'' env2)"

text \<open>The capabilities as the handlers see them after the set-up.\<close>

definition nltk_tokenizer :: "nltk_world \<Rightarrow> nltk_env \<Rightarrow> tokenizer" where
  "nltk_tokenizer w env s =
     (if available w env (w_punkt w) then Inr (w_tok w s) else Inl LookupError)"

definition nltk_wordnet :: "nltk_world \<Rightarrow> nltk_env \<Rightarrow> wordnet" where
  "nltk_wordnet w env word =
     (if available w env ''wordnet'' then Inr (synsets (w_wordnet w) word) else Inl LookupError)"

text \<open>Both capabilities can be used: neither raises.\<close>

definition nltk_ready :: "nltk_world \<Rightarrow> nltk_env \<Rightarrow> bool" where
  "nltk_ready w env \<longleftrightarrow> available w env (w_punkt w) \<and> available w env ''wordnet''"

section \<open>Lemmas\<close>

lemma available_download:
  "available w (nltk_download w r env) x \<longleftrightarrow> available w env x \<or> (x = r \<and> w_net w r)"
  by (auto simp: available_def nltk_download_def)

lemma available_append_path:
  "available w (env\<lparr>data_path := data_path env @ [d]\<rparr>) x \<longleftrightarrow>
     available w env x \<or> x \<in> w_installed w d"
  by (auto simp: available_def)

lemma available_setup:
  "available w (nltk_setup w env) x \<longleftrightarrow>
     available w env x \<or> x \<in> w_installed w home_nltk_data
     \<or> (x = ''punkt'' \<and> w_net w ''punkt'') \<or> (x = ''wordnet'' \<and> w_net w ''wordnet'')"
  by (auto simp: nltk_setup_def Let_def available_download available_append_path)

lemma nltk_ready_always:
  "nltk_ready w env \<Longrightarrow> nltk_tokenizer w env = always (w_tok w) \<and> nltk_wordnet w env = always (synsets (w_wordnet w))"
  by (simp add: nltk_ready_def nltk_tokenizer_def nltk_wordnet_def fun_eq_iff)

lemma nltk_tokenizer_missing:
  "\<not> available w env (w_punkt w) \<Longrightarrow> nltk_tokenizer w env s = Inl LookupError"
  by (simp add: nltk_tokenizer_def)

lemma nltk_wordnet_missing:
  "\<not> available w env ''wordnet'' \<Longrightarrow> nltk_wordnet w env word = Inl LookupError"
  by (simp add: nltk_wordnet_def)

end
