(* ===== verification/Fixtures.thy ===== *)
theory Fixtures
  imports Catalog Tokenize Nltk
begin

text \<open>
  Concrete inputs at which the theorems are instantiated: the two-record catalog of the
  specification's scenarios (section 8), a CSV file holding the first row of the Netflix
  table with an empty description cell and the record it loads to, a record whose
  category was never filled (as \<open>load_movies\<close> would leave it without \<open>fillna\<close>), and a stub WordNet corpus in which
  ``funny'' has a synset whose lemma is ``Comedy''.
\<close>

definition sample_csv :: string where
  "sample_csv =
     render_csv
       [[''show_id'', ''type'', ''title'', ''director'', ''release_year'', ''listed_in'', ''rating'',
         ''description''],
        [''s1'', ''Movie'', ''Dick Johnson Is Dead'', ''Kirsten Johnson'', ''2020'', ''Documentaries'',
         ''PG-13'', []]]"

definition sample_movie :: movie where
  "sample_movie =
     \<lparr>movie_id = PStr ''s1'', title = PStr ''Dick Johnson Is Dead'', year = PInt 2020,
      category = PStr ''Documentaries'', rating = PStr ''PG-13'', overview = PStr []\<rparr>"

definition blank_movie :: movie where
  "blank_movie =
     \<lparr>movie_id = PStr [], title = PStr [], year = PStr [], category = PStr [],
      rating = PStr [], overview = PStr []\<rparr>"

definition rec1 :: movie where
  "rec1 = blank_movie\<lparr>movie_id := PStr ''1'', category := PStr ''Action, Comedy''\<rparr>"

definition rec2 :: movie where
  "rec2 = blank_movie\<lparr>movie_id := PStr ''2'', category := PStr ''Drama''\<rparr>"

definition sample_catalog :: "movie list" where
  "sample_catalog = [rec1, rec2]"

definition nan_movie :: movie where
  "nan_movie = blank_movie\<lparr>movie_id := PStr ''3'', category := PNaN\<rparr>"

definition stub_wordnet :: corpus where
  "stub_wordnet w =
     (if w = ''funny'' then [[''funny'', ''amusing'', ''comic''], [''Comedy'']] else [])"

text \<open>
  WordNet data in which ``funny'' is an adjective and a noun and ``comedy'' a noun whose
  synset has the lemma ``Comedy''; the plural ``comedies'' is not in the index.
\<close>

definition stub_db :: wn_db where
  "stub_db =
     \<lparr>lemma_pos_offset_map = (\<lambda>w p.
        if w = ''funny'' \<and> p = ADJ then Some [1]
        else if w = ''funny'' \<and> p = NOUN then Some [2]
        else if w = ''comedy'' \<and> p = NOUN then Some [2] else None),
      exception_map = (\<lambda>_ _. None),
      synset_lemmas = (\<lambda>p n. if n = 1 then [''funny'', ''amusing'', ''comic'']
                              else if n = 2 then [''Comedy''] else [])\<rparr>"

text \<open>
  Two machines: one with NLTK up to 3.8.1, whose tokenizer loads \<open>punkt\<close>, and one with
  a later NLTK, whose tokenizer loads \<open>punkt_tab\<close>; on both no NLTK data is installed
  and every download succeeds. The process starts with NLTK's default search path.
\<close>

definition sample_world :: nltk_world where
  "sample_world =
     \<lparr>w_installed = (\<lambda>_. {}), w_net = (\<lambda>_. True), w_punkt = ''punkt'',
      w_tok = word_tokenize, w_wordnet = stub_db\<rparr>"

definition tab_world :: nltk_world where
  "tab_world = sample_world\<lparr>w_punkt := ''punkt_tab''\<rparr>"

definition fresh_env :: nltk_env where
  "fresh_env = \<lparr>data_path = [''/root/nltk_data'', ''/usr/share/nltk_data''], downloaded = {}\<rparr>"

text \<open>
  Two files in the shape the specification's scenarios assume: one whose ids are numerals
  and whose first title is the string ``NA'', and one whose \<open>listed_in\<close> column holds
  numbers only.
\<close>

definition numeric_csv :: string where
  "numeric_csv =
     render_csv
       [[''show_id'', ''title'', ''release_year'', ''listed_in'', ''rating'', ''description''],
        [''1'', ''NA'', ''2021'', ''Action, Comedy'', ''TV-MA'', ''Heist''],
        [''2'', ''Up'', ''2009'', ''Drama'', ''PG'', ''Balloons'']]"

definition numeric_category_csv :: string where
  "numeric_category_csv =
     render_csv
       [[''show_id'', ''title'', ''release_year'', ''listed_in'', ''rating'', ''description''],
        [''s1'', ''Se7en'', ''1995'', ''1995'', ''R'', []]]"

lemmas fixture_defs =
  sample_csv_def sample_movie_def blank_movie_def rec1_def rec2_def sample_catalog_def nan_movie_def stub_wordnet_def
  stub_db_def sample_world_def tab_world_def fresh_env_def numeric_csv_def numeric_category_csv_def

lemma load_sample: "load_movies sample_csv = Inr [sample_movie]"
  and text_sample: "text_column sample_csv ''listed_in''"
  by code_simp+

end
