(* ===== verification/Service.thy ===== *)
theory Service
  imports Synonyms Fixtures
begin

text \<open>
  The request handlers of \<^verbatim>\<open>src/main.py\<close> (lines 56--100) over the loaded catalog
  \<open>movies_list\<close>, which every handler receives as its first argument: \<open>home\<close>,
  \<open>get_movies\<close>, \<open>get_movie\<close>, \<open>chatbot\<close> and \<open>get_movies_by_category\<close>. Inside
  \<open>chatbot\<close> two components are separated out: the query expander \<open>expand_query\<close>
  (lines 81--84) and the matcher \<open>match_terms\<close> (line 87). A handler returns the value
  FastAPI serialises (\<open>response\<close>), or the exception it raises (\<open>Inl\<close>); the chatbot
  also receives the two NLTK capabilities, either of which may raise.
  Non-ASCII characters of the Spanish messages are written as their UTF-8 bytes.
\<close>

section \<open>Responses\<close>

datatype response =
    HtmlPage string
  | MovieList "movie list"
  | ExcObject nat string
  | MovieDict movie
  | Detail string
  | ChatReply string "movie list"

definition i_acute :: string where "i_acute = [CHR 0xC3, CHR 0xAD]"
definition e_acute :: string where "e_acute = [CHR 0xC3, CHR 0xA9]"

definition msg_home :: string where
  "msg_home = ''<h1>Bienvenido a la API de pel'' @ i_acute @ ''culas</h1>''"
definition msg_no_data :: string where
  "msg_no_data = ''No hay datos de pel'' @ i_acute @ ''culas disponibles''"
definition msg_not_found :: string where
  "msg_not_found = ''pel'' @ i_acute @ ''cula no encontrada''"
definition msg_found :: string where
  "msg_found = ''Aqu'' @ i_acute @ '' tienes algunas pel'' @ i_acute @ ''culas relacionadas.''"
definition msg_none :: string where
  "msg_none = ''No encontr'' @ e_acute @ '' pel'' @ i_acute @ ''culas en esa categor'' @ i_acute @ ''a''"

section \<open>Matcher\<close>

text \<open>\<open>v.lower()\<close> on a dictionary value: only a string has the method.\<close>

fun py_lower :: "pyval \<Rightarrow> string res" where
  "py_lower (PStr s) = Inr (lower s)"
| "py_lower _ = Inl AttributeError"

text \<open>
  The condition \<open>any(s in m['category'].lower() for s in synonyms)\<close>: with no terms the
  generator is empty and the category is never read; otherwise it is lowercased for the
  first term, which raises if it is not a string.
\<close>

definition category_hit :: "string set \<Rightarrow> movie \<Rightarrow> bool res" where
  "category_hit synonyms m =
     (if synonyms = {} then Inr False
      else (case py_lower (category m) of
              Inl e \<Rightarrow> Inl e
            | Inr c \<Rightarrow> Inr (\<exists>s\<in>synonyms. is_infix s c)))"

definition match_terms :: "string set \<Rightarrow> movie list \<Rightarrow> movie list res" where
  "match_terms synonyms movies_list = filter_res (category_hit synonyms) movies_list"

text \<open>The contract of the matcher: a record matches when some term occurs in its lowercased category.\<close>

definition term_match :: "string set \<Rightarrow> movie \<Rightarrow> bool" where
  "term_match terms m \<longleftrightarrow> (\<exists>t\<in>terms. sublist t (lower (str_of (category m))))"

section \<open>Query expander\<close>

text \<open>
  Lines 81 and 84: the query is lowercased and tokenized, then \<open>get_synonyms\<close> is called
  on every token in order (the first exception aborts the comprehension), and the tokens
  themselves are added to the synonyms.
\<close>

definition expand_query :: "tokenizer \<Rightarrow> wordnet \<Rightarrow> string \<Rightarrow> string set res" where
  "expand_query tokenize wn query =
     (case tokenize (lower query) of
        Inl e \<Rightarrow> Inl e
      | Inr query_words \<Rightarrow>
          (case map_res (get_synonyms wn) query_words of
             Inl e \<Rightarrow> Inl e
           | Inr syns \<Rightarrow> Inr (\<Union>(set syns) \<union> set query_words)))"

section \<open>Handlers\<close>

definition home :: response where
  "home = HtmlPage msg_home"

definition get_movies :: "movie list \<Rightarrow> response" where
  "get_movies movies_list =
     (if movies_list \<noteq> [] then MovieList movies_list else ExcObject 500 msg_no_data)"

definition get_movie :: "movie list \<Rightarrow> string \<Rightarrow> response" where
  "get_movie movies_list i =
     (case find (\<lambda>m. movie_id m = PStr i) movies_list of
        Some m \<Rightarrow> MovieDict m
      | None \<Rightarrow> Detail msg_not_found)"

definition chatbot :: "tokenizer \<Rightarrow> wordnet \<Rightarrow> movie list \<Rightarrow> string \<Rightarrow> response res" where
  "chatbot tokenize wn movies_list query =
     (case expand_query tokenize wn query of
        Inl e \<Rightarrow> Inl e
      | Inr synonyms \<Rightarrow>
          (case match_terms synonyms movies_list of
             Inl e \<Rightarrow> Inl e
           | Inr results \<Rightarrow>
               Inr (ChatReply (if results \<noteq> [] then msg_found else msg_none) results)))"

definition category_contains :: "string \<Rightarrow> movie \<Rightarrow> bool res" where
  "category_contains cat m =
     (case py_lower (category m) of
        Inl e \<Rightarrow> Inl e
      | Inr c \<Rightarrow> Inr (is_infix (lower cat) c))"

definition get_movies_by_category :: "movie list \<Rightarrow> string \<Rightarrow> response res" where
  "get_movies_by_category movies_list cat =
     (case filter_res (category_contains cat) movies_list of
        Inl e \<Rightarrow> Inl e
      | Inr ms \<Rightarrow> Inr (MovieList ms))"

section \<open>Lemmas\<close>

lemma py_lower_wf:
  "wf_movie m \<Longrightarrow> py_lower (category m) = Inr (lower (str_of (category m)))"
  by (cases "category m") (auto simp: wf_movie_def)

lemma category_hit_wf:
  "wf_movie m \<Longrightarrow> category_hit T m = Inr (term_match T m)"
  by (auto simp: category_hit_def term_match_def py_lower_wf is_infix_sublist)

lemma match_terms_wf:
  "catalog_ok ms \<Longrightarrow> match_terms T ms = Inr (filter (term_match T) ms)"
  unfolding match_terms_def
  by (rule filter_res_Inr) (auto simp: catalog_ok_def list_all_iff category_hit_wf)

lemma category_contains_wf:
  "wf_movie m \<Longrightarrow> category_contains c m = Inr (term_match {lower c} m)"
  by (simp add: category_contains_def term_match_def py_lower_wf is_infix_sublist)

lemma get_movies_by_category_wf:
  "catalog_ok ms \<Longrightarrow>
     get_movies_by_category ms c = Inr (MovieList (filter (term_match {lower c}) ms))"
proof -
  assume ok: "catalog_ok ms"
  then have "filter_res (category_contains c) ms = Inr (filter (term_match {lower c}) ms)"
    by (intro filter_res_Inr) (auto simp: catalog_ok_def list_all_iff category_contains_wf)
  then show ?thesis by (simp add: get_movies_by_category_def)
qed

lemma expand_query_Inr:
  assumes "expand_query tok wn q = Inr T"
  obtains ws syns where "tok (lower q) = Inr ws" and "map_res (get_synonyms wn) ws = Inr syns"
    and "T = \<Union>(set syns) \<union> set ws"
  using assms by (auto simp: expand_query_def split: sum.splits)

lemma expand_query_no_tokens: "tok (lower q) = Inr [] \<Longrightarrow> expand_query tok wn q = Inr {}"
  by (simp add: expand_query_def)

lemma expand_query_always:
  "expand_query (always tk) (always c) q =
     Inr ((\<Union>w\<in>set (tk (lower q)). set (concat (map (map lower) (c w)))) \<union> set (tk (lower q)))"
proof -
  have "map_res (get_synonyms (always c)) ws = Inr (map (\<lambda>w. set (concat (map (map lower) (c w)))) ws)"
    for ws by (rule map_res_Inr) simp
  then show ?thesis by (simp add: expand_query_def)
qed

lemma chatbot_Inl: "expand_query tok wn q = Inl e \<Longrightarrow> chatbot tok wn ms q = Inl e"
  by (simp add: chatbot_def)

lemma chatbot_wf:
  "catalog_ok ms \<Longrightarrow> expand_query tok wn q = Inr T \<Longrightarrow>
     chatbot tok wn ms q =
       Inr (ChatReply (if filter (term_match T) ms \<noteq> [] then msg_found else msg_none)
         (filter (term_match T) ms))"
  by (simp add: chatbot_def match_terms_wf)

lemma chatbot_empty_terms:
  assumes "expand_query tok wn q = Inr {}"
  shows "chatbot tok wn ms q = Inr (ChatReply msg_none [])"
proof -
  have "match_terms {} ms = Inr (filter (\<lambda>_. False) ms)"
    unfolding match_terms_def by (rule filter_res_Inr) (simp add: category_hit_def)
  with assms show ?thesis by (simp add: chatbot_def)
qed

lemma msg_found_ne_none [simp]: "msg_found \<noteq> msg_none"
  by (simp add: msg_found_def msg_none_def)

section \<open>Properties\<close>

text \<open>
  C1. On a well-formed catalog the chatbot raises only what the query expansion raises
  (NLTK's \<open>LookupError\<close>); otherwise it answers with exactly the records, in catalog
  order, whose lowercased category contains some term of the expanded query as a
  contiguous substring, and with the ``found'' message exactly when that list is not
  empty.
\<close>
theorem chatbot_contract:
  assumes "catalog_ok ms"
  shows "chatbot tok wn ms q =
     (case expand_query tok wn q of
        Inl e \<Rightarrow> Inl e
      | Inr T \<Rightarrow>
          Inr (ChatReply (if filter (term_match T) ms \<noteq> [] then msg_found else msg_none)
            (filter (term_match T) ms)))"
  using assms by (simp add: chatbot_def match_terms_wf split: sum.split)

theorem chatbot_contract_witness:
  "chatbot (always word_tokenize) (always stub_wordnet) sample_catalog ''funny'' =
   Inr (ChatReply msg_found [rec1])"
proof -
  have ok: "catalog_ok sample_catalog" by (simp add: fixture_defs wf_movie_def movie_no_nan_def)
  have "(case expand_query (always word_tokenize) (always stub_wordnet) ''funny'' of
           Inl e \<Rightarrow> Inl e
         | Inr T \<Rightarrow>
             Inr (ChatReply (if filter (term_match T) sample_catalog \<noteq> [] then msg_found else msg_none)
               (filter (term_match T) sample_catalog))) =
        Inr (ChatReply msg_found [rec1])"
    by code_simp
  with chatbot_contract [OF ok, of "always word_tokenize" "always stub_wordnet" "''funny''"]
  show ?thesis by simp
qed

text \<open>
  C9. With an empty term set the matcher returns the empty list, for every catalog,
  also one whose categories are not strings: \<open>any\<close> over no terms never reads a category.
\<close>
theorem match_terms_no_terms: "match_terms {} ms = Inr []"
proof -
  have "match_terms {} ms = Inr (filter (\<lambda>_. False) ms)"
    unfolding match_terms_def by (rule filter_res_Inr) (simp add: category_hit_def)
  then show ?thesis by simp
qed

text \<open>
  C10. Query expansion never loses an input term: when it succeeds, every token of the
  lowercased query is in the expanded term set.
\<close>
theorem expand_query_keeps_tokens:
  assumes "tok (lower q) = Inr ws" and "expand_query tok wn q = Inr T"
  shows "set ws \<subseteq> T"
  using assms by (auto simp: expand_query_def split: sum.splits)

theorem expand_query_keeps_tokens_witness: "set [''funny''] \<subseteq> {''funny'', ''amusing'', ''comic'', ''comedy''}"
proof -
  have "always word_tokenize (lower ''funny'') = Inr [''funny'']" by code_simp
  moreover have "expand_query (always word_tokenize) (always stub_wordnet) ''funny'' =
      Inr {''funny'', ''amusing'', ''comic'', ''comedy''}"
    by code_simp
  ultimately show ?thesis by (rule expand_query_keeps_tokens)
qed

text \<open>
  C11. On a well-formed catalog the category search for the empty string returns the
  whole catalog, in order (the empty string is a substring of every category).
\<close>
theorem get_movies_by_category_empty:
  "catalog_ok ms \<Longrightarrow> get_movies_by_category ms [] = Inr (MovieList ms)"
  by (simp add: get_movies_by_category_wf term_match_def)

theorem get_movies_by_category_empty_witness:
  "get_movies_by_category sample_catalog [] = Inr (MovieList sample_catalog)"
  by (rule get_movies_by_category_empty) (simp add: fixture_defs wf_movie_def movie_no_nan_def)

text \<open>
  C12. \<open>get_movie\<close> is an exact, first-match lookup that never raises: it returns a
  record exactly when that record is the first of the catalog whose id equals the
  requested string, and the not-found payload \<open>{"detalle": ...}\<close> exactly when no record
  has that id.
\<close>
theorem get_movie_contract:
  "(get_movie ms i = MovieDict m \<longleftrightarrow>
     (\<exists>ps ss. ms = ps @ m # ss \<and> movie_id m = PStr i \<and> (\<forall>p\<in>set ps. movie_id p \<noteq> PStr i)))
   \<and> (get_movie ms i = Detail msg_not_found \<longleftrightarrow> (\<forall>m\<in>set ms. movie_id m \<noteq> PStr i))"
proof
  have "get_movie ms i = MovieDict m \<longleftrightarrow> find (\<lambda>m. movie_id m = PStr i) ms = Some m"
    by (simp add: get_movie_def split: option.split)
  then show "get_movie ms i = MovieDict m \<longleftrightarrow>
     (\<exists>ps ss. ms = ps @ m # ss \<and> movie_id m = PStr i \<and> (\<forall>p\<in>set ps. movie_id p \<noteq> PStr i))"
    by (simp add: find_Some_split)
  have "get_movie ms i = Detail msg_not_found \<longleftrightarrow> find (\<lambda>m. movie_id m = PStr i) ms = None"
    by (simp add: get_movie_def split: option.split)
  then show "get_movie ms i = Detail msg_not_found \<longleftrightarrow> (\<forall>m\<in>set ms. movie_id m \<noteq> PStr i)"
    by (simp add: find_None_iff Ball_def)
qed

theorem get_movie_contract_witness:
  "get_movie sample_catalog ''2'' = MovieDict rec2 \<and> get_movie sample_catalog ''9'' = Detail msg_not_found"
proof -
  have "sample_catalog = [rec1] @ rec2 # [] \<and> movie_id rec2 = PStr ''2'' \<and>
      (\<forall>p\<in>set [rec1]. movie_id p \<noteq> PStr ''2'')"
    by (simp add: fixture_defs)
  moreover have "\<forall>m\<in>set sample_catalog. movie_id m \<noteq> PStr ''9''" by (simp add: fixture_defs)
  ultimately show ?thesis
    using get_movie_contract [of sample_catalog "''2''" rec2] get_movie_contract [of sample_catalog "''9''"]
    by blast
qed

text \<open>
  C25. The category search is the term matcher applied to the single lowercased
  category: the two contracts of the matcher agree on every catalog, errors included.
\<close>
theorem by_category_is_term_match:
  "get_movies_by_category ms c =
     (case match_terms {lower c} ms of Inl e \<Rightarrow> Inl e | Inr rs \<Rightarrow> Inr (MovieList rs))"
proof -
  have "category_contains c = category_hit {lower c}"
    by (auto simp: fun_eq_iff category_contains_def category_hit_def split: sum.split)
  then show ?thesis by (simp add: get_movies_by_category_def match_terms_def)
qed

text \<open>
  C26. Matching is monotone in the term set: more terms (for instance the synonyms
  that expansion adds) give a result of which the smaller one is a subsequence.
\<close>
theorem match_terms_mono:
  assumes ok: "catalog_ok ms" and sub: "T \<subseteq> T'"
    and rs: "match_terms T ms = Inr rs" and rs': "match_terms T' ms = Inr rs'"
  shows "subseq rs rs'"
proof -
  from ok rs rs' have "rs = filter (term_match T) ms" and "rs' = filter (term_match T') ms"
    by (simp_all add: match_terms_wf)
  moreover from sub have "\<And>m. term_match T m \<Longrightarrow> term_match T' m"
    by (auto simp: term_match_def)
  ultimately show ?thesis by (simp add: subseq_filter_mono)
qed

theorem match_terms_mono_witness: "subseq [rec2] [rec1, rec2]"
proof -
  have ok: "catalog_ok sample_catalog" by (simp add: fixture_defs wf_movie_def movie_no_nan_def)
  have "match_terms {''drama''} sample_catalog = Inr [rec2]" by code_simp
  moreover have "match_terms {''drama'', ''comedy''} sample_catalog = Inr [rec1, rec2]" by code_simp
  ultimately show ?thesis using match_terms_mono [OF ok, of "{''drama''}" "{''drama'', ''comedy''}"]
    by blast
qed

text \<open>
  C27. A record whose category contains a token of the query is always returned,
  whatever WordNet says about that token. With NLTK-like tokenization a punctuation mark
  of the query is such a token: the comma of ``Drama, please'' returns every record whose
  category lists several genres.
\<close>
theorem chatbot_literal_token:
  assumes ok: "catalog_ok ms" and m: "m \<in> set ms"
    and ws: "tok (lower q) = Inr ws" and t: "t \<in> set ws"
    and hit: "is_infix t (lower (str_of (category m)))"
    and r: "chatbot tok wn ms q = Inr (ChatReply msg rs)"
  shows "m \<in> set rs"
proof -
  obtain T where T: "expand_query tok wn q = Inr T"
    using r by (cases "expand_query tok wn q") (simp_all add: chatbot_Inl)
  with ok r have "rs = filter (term_match T) ms"
    by (simp add: chatbot_wf)
  moreover from T ws obtain syns where "T = \<Union>(set syns) \<union> set ws"
    by (auto elim: expand_query_Inr)
  ultimately show ?thesis
    using m t hit by (auto simp: term_match_def is_infix_sublist)
qed

theorem chatbot_literal_token_witness:
  "chatbot (always word_tokenize) (always (\<lambda>_. [])) sample_catalog ''Drama, please'' =
     Inr (ChatReply msg_found [rec1, rec2])
   \<and> rec1 \<in> set [rec1, rec2]"
proof -
  have ok: "catalog_ok sample_catalog" by (simp add: fixture_defs wf_movie_def movie_no_nan_def)
  have r: "chatbot (always word_tokenize) (always (\<lambda>_. [])) sample_catalog ''Drama, please'' =
      Inr (ChatReply msg_found [rec1, rec2])" by code_simp
  have m: "rec1 \<in> set sample_catalog" by (simp add: sample_catalog_def)
  have ws: "always word_tokenize (lower ''Drama, please'') = Inr [''drama'', '','', ''please'']"
    by code_simp
  have t: "'','' \<in> set [''drama'', '','', ''please'']" by simp
  have hit: "is_infix '','' (lower (str_of (category rec1)))" by code_simp
  from r chatbot_literal_token [OF ok m ws t hit r] show ?thesis by simp
qed

text \<open>
  C28. The error path of the matcher: a record whose category is not a string (what
  \<open>load_movies\<close> would produce without \<open>fillna\<close>) makes the chatbot's comprehension
  raise \<open>AttributeError\<close> when some term is to be tested against it.
\<close>
theorem match_terms_non_str_raises:
  assumes "T \<noteq> {}" and "\<not> is_str (category m)" and "catalog_ok ps"
  shows "match_terms T (ps @ m # ss) = Inl AttributeError"
proof -
  have "category_hit T m = Inl AttributeError"
    using assms(1,2) by (cases "category m") (auto simp: category_hit_def)
  moreover have "\<forall>y\<in>set ps. \<exists>b. category_hit T y = Inr b"
    using assms(3) by (auto simp: catalog_ok_def list_all_iff category_hit_wf)
  ultimately show ?thesis by (simp add: match_terms_def filter_res_first_Inl)
qed

theorem match_terms_non_str_raises_witness:
  "match_terms {''drama''} (sample_catalog @ nan_movie # []) = Inl AttributeError"
  by (rule match_terms_non_str_raises) (simp_all add: fixture_defs wf_movie_def movie_no_nan_def)

text \<open>
  C36. A query without tokens (empty, or only whitespace for an NLTK-like tokenizer)
  yields the ``no results'' message and the empty list, on every catalog; WordNet is
  never consulted, so this holds even when its corpus is missing.
\<close>
theorem chatbot_no_tokens:
  "tok (lower q) = Inr [] \<Longrightarrow> chatbot tok wn ms q = Inr (ChatReply msg_none [])"
  by (rule chatbot_empty_terms) (rule expand_query_no_tokens)

theorem chatbot_no_tokens_witness:
  "chatbot (always word_tokenize) (\<lambda>_. Inl LookupError) sample_catalog ''  '' =
   Inr (ChatReply msg_none [])"
proof -
  have "always word_tokenize (lower ''  '') = Inr []" by code_simp
  then show ?thesis by (rule chatbot_no_tokens)
qed

text \<open>
  C37. Both searches are case-insensitive in their argument: two chatbot queries with the
  same lowercase form get the same answer, and so do two category arguments.
\<close>
theorem query_case_insensitive:
  assumes "lower q = lower q'"
  shows "chatbot tok wn ms q = chatbot tok wn ms q'
    \<and> get_movies_by_category ms q = get_movies_by_category ms q'"
proof
  show "chatbot tok wn ms q = chatbot tok wn ms q'"
    using assms by (simp add: chatbot_def expand_query_def)
  have "category_contains q = category_contains q'"
    unfolding category_contains_def assms ..
  then show "get_movies_by_category ms q = get_movies_by_category ms q'"
    by (simp add: get_movies_by_category_def)
qed

theorem query_case_insensitive_witness:
  "chatbot (always word_tokenize) (always stub_wordnet) sample_catalog ''DRAMA'' =
     chatbot (always word_tokenize) (always stub_wordnet) sample_catalog ''drama''
   \<and> get_movies_by_category sample_catalog ''DRAMA'' = get_movies_by_category sample_catalog ''drama''"
  by (rule query_case_insensitive) code_simp

text \<open>
  C24. The error path of the expansion: the first token for which WordNet raises (its
  corpus is missing) aborts the chatbot with that exception, whatever the catalog; the
  tokens are looked up in order, so a later token cannot mask it.
\<close>
theorem chatbot_wordnet_missing:
  assumes "tok (lower q) = Inr (t # ts)" and "wn t = Inl e"
  shows "chatbot tok wn ms q = Inl e"
proof -
  have "map_res (get_synonyms wn) (t # ts) = Inl e"
    using assms(2) by (simp add: get_synonyms_Inl)
  with assms(1) have "expand_query tok wn q = Inl e" by (simp add: expand_query_def)
  then show ?thesis by (rule chatbot_Inl)
qed

theorem chatbot_wordnet_missing_witness:
  "chatbot (always word_tokenize) (\<lambda>_. Inl LookupError) sample_catalog ''funny'' = Inl LookupError"
proof -
  have "always word_tokenize (lower ''funny'') = Inr [''funny'']" by code_simp
  then show ?thesis by (rule chatbot_wordnet_missing) simp
qed

end
