(* ===== verification/Routing.thy ===== *)
theory Routing
  imports Service
begin

text \<open>
  How a request reaches a handler. The route table is the list of the five
  \<open>@app.get\<close> decorators of \<^verbatim>\<open>src/main.py\<close> in registration order (lines 56, 66, 71,
  78 and 97). Matching follows the framework (Starlette, under FastAPI): a path template is
  split at \<open>/\<close>, a segment \<open>{name}\<close> matches one non-empty path segment, the first
  route that matches wins; when none matches, the path with its trailing slash toggled is
  tried and a match there answers with a 307 redirect. A required \<open>str\<close> query parameter
  that is missing answers 422; an exception of a handler answers 500; every value a
  handler returns, an exception object included, is serialised with status 200, unless
  the JSON encoder rejects it: \<open>JSONResponse\<close> renders with \<open>allow_nan=False\<close>, so a
  NaN cell in a returned record raises \<open>ValueError\<close> and answers 500 as well.
  \<open>url_path_for\<close> renders a route's path template with parameter values, as
  Starlette's \<open>app.url_path_for\<close> does; the roundtrip theorem shows that the route
  table lets every handler be reached by the path rendered for it.
\<close>

section \<open>Routes\<close>

text \<open>
  \<open>FastAPI(title=..., version=...)\<close> (line 52) registers its documentation routes
  first: the OpenAPI schema, the Swagger UI page, its OAuth2 redirect page and the ReDoc
  page; the decorators then append the five routes of the program.
\<close>

datatype endpoint =
    EOpenApi | EDocs | EDocsRedirect | ERedoc
  | EHome | EGetMovies | EGetMovie | EChatbot | EByCategory

definition routes :: "(string \<times> endpoint) list" where
  "routes =
     [(''/openapi.json'', EOpenApi), (''/docs'', EDocs), (''/docs/oauth2-redirect'', EDocsRedirect),
      (''/redoc'', ERedoc),
      (''/'', EHome), (''/movies'', EGetMovies), (''/movies/{id}'', EGetMovie),
      (''/chatbot'', EChatbot), (''/movies/by_category/'', EByCategory)]"

section \<open>Path matching\<close>

text \<open>\<open>path.split('/')\<close>: a string with \<open>k\<close> separators gives \<open>k + 1\<close> pieces.\<close>

fun split_on :: "char \<Rightarrow> string \<Rightarrow> string list" where
  "split_on d [] = [[]]"
| "split_on d (c # cs) =
     (let ws = split_on d cs in if c = d then [] # ws else (c # hd ws) # tl ws)"

datatype seg = Lit string | Param string

definition compile_seg :: "string \<Rightarrow> seg" where
  "compile_seg s =
     (if 2 \<le> length s \<and> hd s = CHR ''{'' \<and> last s = CHR ''}''
      then Param (butlast (tl s)) else Lit s)"

definition compile_path :: "string \<Rightarrow> seg list" where
  "compile_path t = map compile_seg (split_on CHR ''/'' t)"

fun match_segs :: "seg list \<Rightarrow> string list \<Rightarrow> (string \<times> string) list option" where
  "match_segs [] [] = Some []"
| "match_segs (Lit l # ps) (s # ss) = (if l = s then match_segs ps ss else None)"
| "match_segs (Param n # ps) (s # ss) =
     (if s \<noteq> [] then map_option (\<lambda>as. (n, s) # as) (match_segs ps ss) else None)"
| "match_segs _ _ = None"

fun find_route ::
  "(string \<times> endpoint) list \<Rightarrow> string \<Rightarrow> (endpoint \<times> (string \<times> string) list) option" where
  "find_route [] p = None"
| "find_route ((t, e) # rs) p =
     (case match_segs (compile_path t) (split_on CHR ''/'' p) of
        Some args \<Rightarrow> Some (e, args)
      | None \<Rightarrow> find_route rs p)"

datatype dispatch_result = Matched endpoint "(string \<times> string) list" | Redirect string | NoRoute

definition rstrip_slash :: "string \<Rightarrow> string" where
  "rstrip_slash p = rev (dropWhile (\<lambda>c. c = CHR ''/'') (rev p))"

definition dispatch :: "string \<Rightarrow> dispatch_result" where
  "dispatch p =
     (case find_route routes p of
        Some (e, args) \<Rightarrow> Matched e args
      | None \<Rightarrow>
          (if p = ''/'' then NoRoute
           else (let p' = (if p \<noteq> [] \<and> last p = CHR ''/'' then rstrip_slash p else p @ ''/'')
                 in case find_route routes p' of Some _ \<Rightarrow> Redirect p' | None \<Rightarrow> NoRoute)))"

section \<open>Requests and responses\<close>

record request =
  req_path :: string
  req_query :: "(string \<times> string) list"

datatype http_body =
    Payload response
  | NotFoundBody
  | ValidationError string
  | ServerError
  | RedirectTo string
  | FrameworkPage endpoint
  | MethodNotAllowed
  | NoBody

record http_response =
  status :: nat
  body :: http_body

text \<open>
  What the JSON encoder accepts: a record is serialisable when none of its values is
  NaN; the welcome page is HTML, the exception object and the not-found payload hold
  strings and an integer only.
\<close>

definition json_movie :: "movie \<Rightarrow> bool" where
  "json_movie m \<longleftrightarrow>
     not_nan (movie_id m) \<and> not_nan (title m) \<and> not_nan (year m) \<and> not_nan (category m)
     \<and> not_nan (rating m) \<and> not_nan (overview m)"

fun json_ok :: "response \<Rightarrow> bool" where
  "json_ok (MovieList ms) = list_all json_movie ms"
| "json_ok (MovieDict m) = json_movie m"
| "json_ok (ChatReply msg ms) = list_all json_movie ms"
| "json_ok _ = True"

text \<open>A repeated query parameter: the last occurrence wins.\<close>

definition query_param :: "(string \<times> string) list \<Rightarrow> string \<Rightarrow> string option" where
  "query_param qs name = map_of (rev qs) name"

definition reply :: "response res \<Rightarrow> http_response" where
  "reply r =
     (case r of
        Inl _ \<Rightarrow> \<lparr>status = 500, body = ServerError\<rparr>
      | Inr v \<Rightarrow>
          (if json_ok v then \<lparr>status = 200, body = Payload v\<rparr>
           else \<lparr>status = 500, body = ServerError\<rparr>))"

definition require ::
  "(string \<times> string) list \<Rightarrow> string \<Rightarrow> (string \<Rightarrow> http_response) \<Rightarrow> http_response" where
  "require args name k =
     (case query_param args name of
        None \<Rightarrow> \<lparr>status = 422, body = ValidationError name\<rparr>
      | Some v \<Rightarrow> k v)"

definition handle :: "tokenizer \<Rightarrow> wordnet \<Rightarrow> movie list \<Rightarrow> request \<Rightarrow> http_response" where
  "handle tok wn movies_list r =
     (case dispatch (req_path r) of
        NoRoute \<Rightarrow> \<lparr>status = 404, body = NotFoundBody\<rparr>
      | Redirect p \<Rightarrow> \<lparr>status = 307, body = RedirectTo p\<rparr>
      | Matched e args \<Rightarrow>
          (case e of
             EOpenApi \<Rightarrow> \<lparr>status = 200, body = FrameworkPage EOpenApi\<rparr>
           | EDocs \<Rightarrow> \<lparr>status = 200, body = FrameworkPage EDocs\<rparr>
           | EDocsRedirect \<Rightarrow> \<lparr>status = 200, body = FrameworkPage EDocsRedirect\<rparr>
           | ERedoc \<Rightarrow> \<lparr>status = 200, body = FrameworkPage ERedoc\<rparr>
           | EHome \<Rightarrow> reply (Inr home)
           | EGetMovies \<Rightarrow> reply (Inr (get_movies movies_list))
           | EGetMovie \<Rightarrow> require args ''id'' (\<lambda>i. reply (Inr (get_movie movies_list i)))
           | EChatbot \<Rightarrow>
               require (req_query r) ''query'' (\<lambda>q. reply (chatbot tok wn movies_list q))
           | EByCategory \<Rightarrow>
               require (req_query r) ''category''
                 (\<lambda>c. reply (get_movies_by_category movies_list c))))"

section \<open>Reverse routing\<close>

text \<open>
  \<open>url_path_for(name, **params)\<close>: the first route of the handler, provided the
  parameters given are exactly those of its template; each \<open>{name}\<close> is replaced by the
  value of \<open>name\<close>, which the \<open>str\<close> convertor requires to be non-empty and free of
  \<open>/\<close> (Starlette asserts both); \<open>None\<close> where Starlette raises.
\<close>

fun params_of :: "seg list \<Rightarrow> string list" where
  "params_of [] = []"
| "params_of (Lit l # ps) = params_of ps"
| "params_of (Param n # ps) = n # params_of ps"

fun fill_segs :: "(string \<times> string) list \<Rightarrow> seg list \<Rightarrow> string list option" where
  "fill_segs args [] = Some []"
| "fill_segs args (Lit l # ps) = map_option (Cons l) (fill_segs args ps)"
| "fill_segs args (Param n # ps) =
     (case map_of args n of
        None \<Rightarrow> None
      | Some v \<Rightarrow>
          (if v = [] \<or> CHR ''/'' \<in> set v then None
           else map_option (Cons v) (fill_segs args ps)))"

fun join_path :: "string list \<Rightarrow> string" where
  "join_path [] = []"
| "join_path [s] = s"
| "join_path (s # ss) = s @ ''/'' @ join_path ss"

definition url_path_for :: "endpoint \<Rightarrow> (string \<times> string) list \<Rightarrow> string option" where
  "url_path_for e args =
     (case find (\<lambda>(t, e'). e' = e) routes of
        None \<Rightarrow> None
      | Some (t, _) \<Rightarrow>
          (let segs = compile_path t in
           if set (map fst args) \<noteq> set (params_of segs) then None
           else map_option join_path (fill_segs args segs)))"

section \<open>Lemmas\<close>

lemma split_on_nonempty [simp]: "split_on d s \<noteq> []"
  by (induction s) (simp_all add: Let_def)

lemma split_on_no_sep: "d \<notin> set s \<Longrightarrow> split_on d s = [s]"
  by (induction s) (auto simp: Let_def)

lemma split_on_append_sep:
  "d \<notin> set s \<Longrightarrow> split_on d (s @ d # t) = s # split_on d t"
  by (induction s) (auto simp: Let_def)

lemma split_on_join_path:
  "ss \<noteq> [] \<Longrightarrow> \<forall>s\<in>set ss. CHR ''/'' \<notin> set s \<Longrightarrow>
     split_on CHR ''/'' (join_path ss) = ss"
  by (induction ss rule: join_path.induct) (simp_all add: split_on_no_sep split_on_append_sep)

lemma no_nan_json: "list_all movie_no_nan ms \<Longrightarrow> set rs \<subseteq> set ms \<Longrightarrow> list_all json_movie rs"
  by (auto simp: list_all_iff json_movie_def movie_no_nan_def)

lemma json_ok_get_movies: "list_all movie_no_nan ms \<Longrightarrow> json_ok (get_movies ms)"
  by (auto simp: get_movies_def intro: no_nan_json)

lemma json_ok_get_movie: "list_all movie_no_nan ms \<Longrightarrow> json_ok (get_movie ms i)"
  by (auto simp: get_movie_def list_all_iff json_movie_def movie_no_nan_def
      dest: find_Some_mem split: option.split)

lemma chatbot_Inr_subset:
  "chatbot tok wn ms q = Inr v \<Longrightarrow> \<exists>msg rs. v = ChatReply msg rs \<and> set rs \<subseteq> set ms"
  by (auto simp: chatbot_def match_terms_def split: sum.splits dest: filter_res_subset)

lemma by_category_Inr_subset:
  "get_movies_by_category ms c = Inr v \<Longrightarrow> \<exists>rs. v = MovieList rs \<and> set rs \<subseteq> set ms"
  by (auto simp: get_movies_by_category_def split: sum.splits dest: filter_res_subset)

lemma json_ok_chatbot:
  "list_all movie_no_nan ms \<Longrightarrow> chatbot tok wn ms q = Inr v \<Longrightarrow> json_ok v"
  by (auto dest!: chatbot_Inr_subset intro: no_nan_json)

lemma json_ok_by_category:
  "list_all movie_no_nan ms \<Longrightarrow> get_movies_by_category ms c = Inr v \<Longrightarrow> json_ok v"
  by (auto dest!: by_category_Inr_subset intro: no_nan_json)

text \<open>
  On a catalog without NaN the only requests answered 500 are a chatbot request or a
  category search whose handler raised: every value a handler returns is serialisable.
\<close>

lemma handle_server_error:
  assumes nn: "list_all movie_no_nan ms" and st: "status (handle tok wn ms r) = 500"
  shows "(\<exists>args q. dispatch (req_path r) = Matched EChatbot args
            \<and> query_param (req_query r) ''query'' = Some q \<and> isl (chatbot tok wn ms q))
       \<or> (\<exists>args c. dispatch (req_path r) = Matched EByCategory args
            \<and> query_param (req_query r) ''category'' = Some c \<and> isl (get_movies_by_category ms c))"
proof (cases "dispatch (req_path r)")
  case (Matched e args)
  show ?thesis
  proof (cases e)
    case EChatbot
    then obtain q where q: "query_param (req_query r) ''query'' = Some q"
      using st Matched by (auto simp: handle_def require_def split: option.splits)
    have "isl (chatbot tok wn ms q)"
    proof (cases "chatbot tok wn ms q")
      case (Inr v)
      with nn have "json_ok v" by (rule json_ok_chatbot)
      with Inr st Matched EChatbot q show ?thesis by (simp add: handle_def require_def reply_def)
    qed simp
    with Matched EChatbot q show ?thesis by blast
  next
    case EByCategory
    then obtain c where c: "query_param (req_query r) ''category'' = Some c"
      using st Matched by (auto simp: handle_def require_def split: option.splits)
    have "isl (get_movies_by_category ms c)"
    proof (cases "get_movies_by_category ms c")
      case (Inr v)
      with nn have "json_ok v" by (rule json_ok_by_category)
      with Inr st Matched EByCategory c show ?thesis by (simp add: handle_def require_def reply_def)
    qed simp
    with Matched EByCategory c show ?thesis by blast
  qed (use st Matched nn in \<open>auto simp: handle_def require_def reply_def json_ok_get_movies
        json_ok_get_movie home_def split: option.splits\<close>)
qed (use st in \<open>simp_all add: handle_def\<close>)

text \<open>
  On a well-formed catalog only the query expansion of the chatbot can raise.
\<close>

lemma wf_handlers_raise:
  assumes "catalog_ok ms"
  shows "\<not> isl (get_movies_by_category ms c)"
    and "isl (chatbot tok wn ms q) \<Longrightarrow> \<exists>e. expand_query tok wn q = Inl e"
  using assms by (auto simp: get_movies_by_category_wf chatbot_def match_terms_wf split: sum.splits)

text \<open>
  Every path \<open>/movies/<s>\<close> with a non-empty segment \<open>s\<close> without slash is routed to
  \<open>get_movie\<close> with \<open>id = s\<close>: no earlier route can take it.
\<close>

lemma dispatch_movie_id:
  assumes "s \<noteq> []" and "CHR ''/'' \<notin> set s"
  shows "dispatch (''/movies/'' @ s) = Matched EGetMovie [(''id'', s)]"
  using assms by (simp add: dispatch_def routes_def split_on_no_sep compile_path_def compile_seg_def)

lemma url_path_for_static:
  assumes "url_path_for e args = Some p" and "e \<noteq> EGetMovie"
  shows "args = [] \<and> dispatch p = Matched e []"
proof -
  have "dispatch ''/openapi.json'' = Matched EOpenApi []" and "dispatch ''/docs'' = Matched EDocs []"
    and "dispatch ''/docs/oauth2-redirect'' = Matched EDocsRedirect []"
    and "dispatch ''/redoc'' = Matched ERedoc []"
    and "dispatch ''/'' = Matched EHome []" and "dispatch ''/movies'' = Matched EGetMovies []"
    and "dispatch ''/chatbot'' = Matched EChatbot []"
    and "dispatch ''/movies/by_category/'' = Matched EByCategory []"
    by code_simp+
  with assms show ?thesis
    by (cases e) (simp_all add: url_path_for_def routes_def compile_path_def compile_seg_def
        split: if_splits)
qed

section \<open>Properties\<close>

text \<open>
  C17. Reverse routing and routing are inverse: the path \<open>url_path_for\<close> renders for a
  handler and its parameters is dispatched back to that handler with the same
  parameters. So no route of the table is shadowed by an earlier one for any path it
  renders, in particular \<open>/movies/{id}\<close> for every id the \<open>str\<close> convertor accepts.
\<close>

theorem url_path_for_dispatch:
  assumes "url_path_for e args = Some p"
  shows "\<exists>args'. dispatch p = Matched e args' \<and> map_of args' = map_of args"
proof (cases "e = EGetMovie")
  case True
  with assms have "url_path_for EGetMovie args = Some p" by simp
  then obtain v where keys: "set (map fst args) = {''id''}" and v: "map_of args ''id'' = Some v"
    and nesl: "v \<noteq> [] \<and> CHR ''/'' \<notin> set v" and p: "p = ''/movies/'' @ v"
    by (simp add: url_path_for_def routes_def compile_path_def compile_seg_def
        split: if_splits option.splits)
  from nesl have ne: "v \<noteq> []" and sl: "CHR ''/'' \<notin> set v" by simp_all
  have "map_of [(''id'', v)] = map_of args"
  proof
    fix n
    show "map_of [(''id'', v)] n = map_of args n"
    proof (cases "n = ''id''")
      case False
      with keys have "map_of args n = None" by (auto simp: map_of_eq_None_iff)
      with False show ?thesis by simp
    qed (simp add: v)
  qed
  moreover have "dispatch p = Matched EGetMovie [(''id'', v)]"
    unfolding p using ne sl by (rule dispatch_movie_id)
  ultimately show ?thesis using True by blast
next
  case False
  with assms show ?thesis using url_path_for_static by blast
qed

theorem url_path_for_dispatch_witness:
  "\<exists>args'. dispatch ''/movies/s42'' = Matched EGetMovie args'
     \<and> map_of args' = map_of [(''id'', ''s42'')]"
proof -
  have "url_path_for EGetMovie [(''id'', ''s42'')] = Some ''/movies/s42''" by code_simp
  then show ?thesis by (rule url_path_for_dispatch)
qed


text \<open>
  C30. The category search is registered as \<open>/movies/by_category/\<close> after
  \<open>/movies/{id}\<close>: a request for \<open>/movies/by_category\<close> (no trailing slash) is served by
  \<open>get_movie\<close> with id ``by_category'' and answers the not-found payload with status 200,
  whatever category it asks for.
\<close>

theorem by_category_without_slash:
  assumes "\<forall>m\<in>set ms. movie_id m \<noteq> PStr ''by_category''"
  shows "handle tok wn ms \<lparr>req_path = ''/movies/by_category'', req_query = qs\<rparr> =
           \<lparr>status = 200, body = Payload (Detail msg_not_found)\<rparr>"
proof -
  have "dispatch ''/movies/by_category'' = Matched EGetMovie [(''id'', ''by_category'')]"
    by code_simp
  moreover have "find (\<lambda>m. movie_id m = PStr ''by_category'') ms = None"
    using assms by (simp add: find_None_iff)
  ultimately show ?thesis
    by (simp add: handle_def require_def query_param_def reply_def get_movie_def)
qed

theorem by_category_without_slash_witness:
  "handle (always word_tokenize) (always stub_wordnet) sample_catalog
     \<lparr>req_path = ''/movies/by_category'', req_query = [(''category'', ''drama'')]\<rparr> =
   \<lparr>status = 200, body = Payload (Detail msg_not_found)\<rparr>"
  by (rule by_category_without_slash) (simp add: fixture_defs)

text \<open>
  C31. A request for \<open>/movies/by_category/\<close> with a \<open>category\<close> parameter reaches the
  category search: on a well-formed catalog it answers 200 with exactly the records whose
  lowercased category contains the lowercased argument.
\<close>

theorem handle_by_category:
  assumes "catalog_ok ms" and "query_param qs ''category'' = Some c"
  shows "handle tok wn ms \<lparr>req_path = ''/movies/by_category/'', req_query = qs\<rparr> =
           \<lparr>status = 200, body = Payload (MovieList (filter (term_match {lower c}) ms))\<rparr>"
proof -
  have "dispatch ''/movies/by_category/'' = Matched EByCategory []"
    by code_simp
  with assms show ?thesis
    using catalog_ok_no_nan [OF assms(1)]
    by (simp add: handle_def require_def reply_def get_movies_by_category_wf json_ok_by_category no_nan_json)
qed

theorem handle_by_category_witness:
  "handle (always word_tokenize) (always stub_wordnet) sample_catalog
     \<lparr>req_path = ''/movies/by_category/'', req_query = [(''category'', ''drama'')]\<rparr> =
   \<lparr>status = 200, body = Payload (MovieList [rec2])\<rparr>"
proof -
  have ok: "catalog_ok sample_catalog" by (simp add: fixture_defs wf_movie_def movie_no_nan_def)
  have q: "query_param [(''category'', ''drama'')] ''category'' = Some ''drama''"
    by (simp add: query_param_def)
  have "filter (term_match {lower ''drama''}) sample_catalog = [rec2]" by code_simp
  with handle_by_category [OF ok q] show ?thesis by simp
qed

text \<open>
  A chatbot request without a \<open>query\<close> parameter is rejected with status 422
  before the handler runs.
\<close>

theorem handle_missing_query:
  assumes "query_param qs ''query'' = None"
  shows "handle tok wn ms \<lparr>req_path = ''/chatbot'', req_query = qs\<rparr> =
           \<lparr>status = 422, body = ValidationError ''query''\<rparr>"
proof -
  have "dispatch ''/chatbot'' = Matched EChatbot []" by code_simp
  with assms show ?thesis by (simp add: handle_def require_def)
qed

theorem handle_missing_query_witness:
  "handle (always word_tokenize) (always stub_wordnet) sample_catalog
     \<lparr>req_path = ''/chatbot'', req_query = [(''q'', ''funny'')]\<rparr> =
   \<lparr>status = 422, body = ValidationError ''query''\<rparr>"
  by (rule handle_missing_query) (simp add: query_param_def)

text \<open>
  C29. On an empty catalog \<open>get_movies\<close> returns the \<open>HTTPException\<close> object instead of
  raising it: the response has status 200 and the exception's fields as its payload.
\<close>

theorem get_movies_empty_status:
  "handle tok wn [] \<lparr>req_path = ''/movies'', req_query = qs\<rparr> =
     \<lparr>status = 200, body = Payload (ExcObject 500 msg_no_data)\<rparr>"
proof -
  have "dispatch ''/movies'' = Matched EGetMovies []" by code_simp
  then show ?thesis by (simp add: handle_def reply_def get_movies_def)
qed



end
