(* ===== verification/Http.thy ===== *)
theory Http
  imports Routing
begin

text \<open>
  The request as it arrives on the wire, and what the server and the framework do with it
  before the route table of theory \<open>Routing\<close> is consulted. The ASGI server (uvicorn)
  splits the request target at the first \<open>?\<close>, percent-decodes the path with
  \<open>urllib.parse.unquote\<close> and passes the query string on undecoded; Starlette parses
  the query string with \<open>parse_qsl(qs, keep_blank_values=True)\<close>: pieces separated by
  \<open>&\<close>, empty pieces dropped, a piece split at its first \<open>=\<close> (a piece without one gets
  the empty value), \<open>+\<close> read as a space, then percent-decoded. Every route of the
  application (line 52 and the decorators at lines 56--97) accepts GET and, since
  Starlette adds it to every GET route, HEAD; any other method on a path some route
  matches is refused with 405 (FastAPI turns Starlette's \<open>HTTPException\<close> into a JSON
  body), and the response to HEAD is sent without its body. Strings are byte lists, so
  decoding a percent escape yields one byte.

  The client side (\<open>quote\<close>, \<open>quote_plus\<close>, \<open>urlencode\<close> of Python's
  \<open>urllib.parse\<close>, as HTTP clients build URLs) is defined as well, to state that what a
  client encodes reaches the handlers unchanged.
\<close>

datatype http_method = GET | HEAD | POST | PUT | PATCH | DELETE | OPTIONS

record raw_request =
  rq_method :: http_method
  rq_target :: string

section \<open>Decoding\<close>

text \<open>The value of a hexadecimal digit (\<open>_hextobyte\<close> accepts both cases).\<close>

definition hex_value :: "char \<Rightarrow> nat option" where
  "hex_value c =
     (let n = of_char c :: nat in
      if 48 \<le> n \<and> n \<le> 57 then Some (n - 48)
      else if 65 \<le> n \<and> n \<le> 70 then Some (n - 55)
      else if 97 \<le> n \<and> n \<le> 102 then Some (n - 87) else None)"

text \<open>
  \<open>unquote\<close>: \<open>%\<close> followed by two hexadecimal digits is the byte they denote; any
  other \<open>%\<close> is kept and decoding goes on with the next character.
\<close>

fun unquote :: "string \<Rightarrow> string" where
  "unquote [] = []"
| "unquote (c # cs) =
     (if c = CHR ''%'' then
        (case cs of
           h # l # rest \<Rightarrow>
             (case (hex_value h, hex_value l) of
                (Some a, Some b) \<Rightarrow> char_of (16 * a + b) # unquote rest
              | _ \<Rightarrow> c # unquote cs)
         | _ \<Rightarrow> c # unquote cs)
      else c # unquote cs)"

definition plus_to_space :: "string \<Rightarrow> string" where
  "plus_to_space s = map (\<lambda>c. if c = CHR ''+'' then CHR '' '' else c) s"

text \<open>One \<open>name=value\<close> piece of the query string.\<close>

definition parse_pair :: "string \<Rightarrow> string \<times> string" where
  "parse_pair nv =
     (let name = takeWhile (\<lambda>c. c \<noteq> CHR ''='') nv;
          value = drop (Suc (length name)) nv
      in (unquote (plus_to_space name), unquote (plus_to_space value)))"

definition parse_qsl :: "string \<Rightarrow> (string \<times> string) list" where
  "parse_qsl qs = map parse_pair (filter (\<lambda>nv. nv \<noteq> []) (split_on CHR ''&'' qs))"

text \<open>The request target split at its first \<open>?\<close> into path and query string.\<close>

definition split_target :: "string \<Rightarrow> string \<times> string" where
  "split_target t =
     (let p = takeWhile (\<lambda>c. c \<noteq> CHR ''?'') t in (p, drop (Suc (length p)) t))"

definition to_request :: "raw_request \<Rightarrow> request" where
  "to_request rq =
     (let (p, q) = split_target (rq_target rq) in \<lparr>req_path = unquote p, req_query = parse_qsl q\<rparr>)"

section \<open>Methods\<close>

text \<open>
  The whole exchange: a path some route matches is served by \<open>handle\<close> for GET and HEAD
  and refused with 405 for any other method; a path no route matches is redirected or
  not found whatever the method. HEAD drops the body.
\<close>

definition serve :: "tokenizer \<Rightarrow> wordnet \<Rightarrow> movie list \<Rightarrow> raw_request \<Rightarrow> http_response" where
  "serve tok wn ms rq =
     (let r = to_request rq;
          resp = (case dispatch (req_path r) of
                    Matched _ _ \<Rightarrow>
                      (if rq_method rq = GET \<or> rq_method rq = HEAD then handle tok wn ms r
                       else \<lparr>status = 405, body = MethodNotAllowed\<rparr>)
                  | _ \<Rightarrow> handle tok wn ms r)
      in if rq_method rq = HEAD then resp\<lparr>body := NoBody\<rparr> else resp)"

section \<open>Clients\<close>

text \<open>
  Python's \<open>quote(s, safe='')\<close>, \<open>quote_plus(s, safe='')\<close> and \<open>urlencode\<close> of a
  list of pairs: letters, digits and \<open>_.-~\<close> stay, every other byte becomes \<open>%XX\<close>
  with upper-case digits, except that \<open>quote_plus\<close> writes a space as \<open>+\<close>.
\<close>

definition unreserved :: "char \<Rightarrow> bool" where
  "unreserved c \<longleftrightarrow>
     (let n = of_char c :: nat in
      (48 \<le> n \<and> n \<le> 57) \<or> (65 \<le> n \<and> n \<le> 90) \<or> (97 \<le> n \<and> n \<le> 122)
      \<or> c \<in> {CHR ''_'', CHR ''.'', CHR ''-'', CHR ''~''})"

definition hex_digit :: "nat \<Rightarrow> char" where
  "hex_digit n = (if n < 10 then char_of (48 + n) else char_of (55 + n))"

definition pct :: "char \<Rightarrow> string" where
  "pct c = [CHR ''%'', hex_digit (of_char c div 16), hex_digit (of_char c mod 16)]"

definition quote :: "string \<Rightarrow> string" where
  "quote s = concat (map (\<lambda>c. if unreserved c then [c] else pct c) s)"

definition quote_plus :: "string \<Rightarrow> string" where
  "quote_plus s =
     concat (map (\<lambda>c. if unreserved c then [c] else if c = CHR '' '' then ''+'' else pct c) s)"

fun urlencode :: "(string \<times> string) list \<Rightarrow> string" where
  "urlencode [] = []"
| "urlencode [(k, v)] = quote_plus k @ ''='' @ quote_plus v"
| "urlencode ((k, v) # kvs) = quote_plus k @ ''='' @ quote_plus v @ ''&'' @ urlencode kvs"

section \<open>Lemmas\<close>

lemma hex_digit_value: "n < 16 \<Longrightarrow> hex_value (hex_digit n) = Some n"
  by (auto simp: hex_value_def hex_digit_def Let_def)

lemma hex_digit_unreserved: "n < 16 \<Longrightarrow> unreserved (hex_digit n)"
  by (auto simp: unreserved_def hex_digit_def Let_def)

lemma pct_digits: "of_char c div 16 < (16::nat)" "of_char c mod 16 < (16::nat)"
  using nat_of_char_less_256 [of c] by (simp_all add: less_mult_imp_div_less)

lemma unquote_pct: "unquote (pct c @ s) = c # unquote s"
proof -
  have "char_of (16 * (of_char c div 16) + of_char c mod 16 :: nat) = c"
    by (simp add: mult_div_mod_eq)
  then show ?thesis by (simp add: pct_def hex_digit_value pct_digits)
qed

lemma unreserved_not_special [simp]:
  "\<not> unreserved CHR ''%''" "\<not> unreserved CHR ''+''" "\<not> unreserved CHR ''&''"
  "\<not> unreserved CHR ''=''" "\<not> unreserved CHR ''?''" "\<not> unreserved CHR ''/''"
  "\<not> unreserved CHR '' ''"
  by (simp_all add: unreserved_def)

lemma set_pct: "x \<in> set (pct c) \<Longrightarrow> x = CHR ''%'' \<or> unreserved x"
  by (auto simp: pct_def intro: hex_digit_unreserved pct_digits)

lemma set_quote: "x \<in> set (quote s) \<Longrightarrow> x = CHR ''%'' \<or> unreserved x"
  by (auto simp: quote_def split: if_splits dest: set_pct)

lemma set_quote_plus: "x \<in> set (quote_plus s) \<Longrightarrow> x = CHR ''%'' \<or> x = CHR ''+'' \<or> unreserved x"
  by (auto simp: quote_plus_def split: if_splits dest: set_pct)

lemma unquote_plain: "CHR ''%'' \<notin> set p \<Longrightarrow> unquote (p @ s) = p @ unquote s"
  by (induction p) auto

lemma unquote_quote: "unquote (quote s) = s"
proof (induction s)
  case (Cons c s)
  then show ?case
    by (cases "unreserved c") (auto simp: quote_def unquote_pct)
qed (simp add: quote_def)

lemma plus_to_space_pct: "plus_to_space (pct c) = pct c"
proof -
  have "(if x = CHR ''+'' then CHR '' '' else x) = x" if "x \<in> set (pct c)" for x
    using set_pct [OF that] by auto
  then show ?thesis unfolding plus_to_space_def by (rule map_idI)
qed

lemma unquote_quote_plus: "unquote (plus_to_space (quote_plus s)) = s"
proof (induction s)
  case (Cons c s)
  have split: "plus_to_space (quote_plus (c # s)) =
      plus_to_space (if unreserved c then [c] else if c = CHR '' '' then ''+'' else pct c)
      @ plus_to_space (quote_plus s)"
    by (simp add: quote_plus_def plus_to_space_def)
  show ?case
  proof (cases "unreserved c")
    case True
    then have "c \<noteq> CHR ''+''" and "c \<noteq> CHR ''%''" by auto
    with True split have "plus_to_space (quote_plus (c # s)) = c # plus_to_space (quote_plus s)"
      by (simp add: plus_to_space_def)
    with Cons \<open>c \<noteq> CHR ''%''\<close> show ?thesis by simp
  next
    case False
    show ?thesis
    proof (cases "c = CHR '' ''")
      case True
      with split have "plus_to_space (quote_plus (c # s)) = CHR '' '' # plus_to_space (quote_plus s)"
        by (simp add: plus_to_space_def)
      with Cons True show ?thesis by simp
    next
      case sp: False
      with False split have "plus_to_space (quote_plus (c # s)) = pct c @ plus_to_space (quote_plus s)"
        by (simp add: plus_to_space_pct)
      with Cons show ?thesis by (simp add: unquote_pct)
    qed
  qed
qed (simp add: quote_plus_def plus_to_space_def)

lemma parse_pair_encoded: "parse_pair (quote_plus k @ CHR ''='' # quote_plus v) = (k, v)"
proof -
  have "CHR ''='' \<notin> set (quote_plus k)" using set_quote_plus by fastforce
  then show ?thesis by (simp add: parse_pair_def Let_def unquote_quote_plus)
qed

lemma split_urlencode:
  "kvs \<noteq> [] \<Longrightarrow>
     split_on CHR ''&'' (urlencode kvs) = map (\<lambda>(k, v). quote_plus k @ ''='' @ quote_plus v) kvs"
proof (induction kvs rule: urlencode.induct)
  case (2 k v)
  have "CHR ''&'' \<notin> set (quote_plus k @ ''='' @ quote_plus v)" using set_quote_plus by fastforce
  then show ?case by (simp add: split_on_no_sep)
next
  case (3 k v kv kvs)
  have "CHR ''&'' \<notin> set (quote_plus k @ ''='' @ quote_plus v)" using set_quote_plus by fastforce
  with 3 show ?case using split_on_append_sep [of "CHR ''&''" "quote_plus k @ ''='' @ quote_plus v"]
    by simp
qed simp

lemma to_request_method: "to_request (rq\<lparr>rq_method := m\<rparr>) = to_request rq"
  by (simp add: to_request_def)

lemma to_request_query:
  assumes "CHR ''?'' \<notin> set p"
  shows "to_request \<lparr>rq_method = m, rq_target = p @ CHR ''?'' # q\<rparr> =
           \<lparr>req_path = unquote p, req_query = parse_qsl q\<rparr>"
  using assms by (simp add: to_request_def split_target_def)

lemma to_request_path:
  assumes "CHR ''?'' \<notin> set p"
  shows "to_request \<lparr>rq_method = m, rq_target = p\<rparr> = \<lparr>req_path = unquote p, req_query = []\<rparr>"
  using assms by (simp add: to_request_def split_target_def parse_qsl_def)


lemma encoded_pair_nonempty: "quote_plus k @ ''='' @ quote_plus v \<noteq> []"
  by simp

lemma parse_qsl_single: "parse_qsl (quote_plus k @ CHR ''='' # quote_plus v) = [(k, v)]"
proof -
  have "CHR ''&'' \<notin> set (quote_plus k @ ''='' @ quote_plus v)" using set_quote_plus by fastforce
  then show ?thesis by (simp add: parse_qsl_def split_on_no_sep parse_pair_encoded)
qed

lemma serve_GET: "serve tok wn ms \<lparr>rq_method = GET, rq_target = t\<rparr> =
    handle tok wn ms (to_request \<lparr>rq_method = GET, rq_target = t\<rparr>)"
  by (simp add: serve_def Let_def split: dispatch_result.split)

lemma serve_server_error:
  "status (serve tok wn ms rq) = 500 \<Longrightarrow> status (handle tok wn ms (to_request rq)) = 500"
  by (auto simp: serve_def Let_def split: dispatch_result.splits if_splits)

section \<open>Properties\<close>

text \<open>
  C21. What a client encodes, the application reads back: for every list of name--value
  pairs, whatever bytes they hold (spaces, \<open>&\<close>, \<open>=\<close>, \<open>+\<close>, \<open>%\<close> included), Starlette's
  \<open>parse_qsl\<close> of the query string \<open>urlencode\<close> built is that list, in order.
\<close>

theorem parse_qsl_urlencode: "parse_qsl (urlencode kvs) = kvs"
proof (cases "kvs = []")
  case False
  have "filter (\<lambda>nv. nv \<noteq> []) (map (\<lambda>(k, v). quote_plus k @ ''='' @ quote_plus v) kvs) =
      map (\<lambda>(k, v). quote_plus k @ ''='' @ quote_plus v) kvs"
    by (induction kvs) auto
  moreover have "map parse_pair (map (\<lambda>(k, v). quote_plus k @ ''='' @ quote_plus v) kvs) = kvs"
    by (induction kvs) (auto simp: parse_pair_encoded)
  ultimately show ?thesis using False by (simp add: parse_qsl_def split_urlencode)
qed (simp add: parse_qsl_def)




text \<open>
  C23. The URLs a client builds reach the handlers with the values it encoded: the path
  \<open>/movies/\<close> followed by the quoted id answers what \<open>get_movie\<close> returns for that id,
  for every non-empty id without \<open>/\<close>, and the chatbot URL with the urlencoded query
  answers what \<open>chatbot\<close> returns for that query, whatever bytes it holds.
\<close>

theorem client_urls_reach_handlers:
  assumes "s \<noteq> []" and "CHR ''/'' \<notin> set s"
  shows "serve tok wn ms \<lparr>rq_method = GET, rq_target = ''/movies/'' @ quote s\<rparr> =
           reply (Inr (get_movie ms s))
    \<and> serve tok wn ms \<lparr>rq_method = GET, rq_target = ''/chatbot?'' @ urlencode [(''query'', q)]\<rparr> =
           reply (chatbot tok wn ms q)"
proof
  have "CHR ''?'' \<notin> set (''/movies/'' @ quote s)" using set_quote by fastforce
  then have "to_request \<lparr>rq_method = GET, rq_target = ''/movies/'' @ quote s\<rparr> =
      \<lparr>req_path = ''/movies/'' @ s, req_query = []\<rparr>"
    by (simp add: to_request_path unquote_plain unquote_quote)
  with dispatch_movie_id [OF assms] show "serve tok wn ms \<lparr>rq_method = GET, rq_target = ''/movies/'' @ quote s\<rparr> =
      reply (Inr (get_movie ms s))"
    by (simp add: serve_GET handle_def require_def query_param_def)
next
  have "to_request \<lparr>rq_method = GET, rq_target = ''/chatbot'' @ CHR ''?'' # urlencode [(''query'', q)]\<rparr> =
      \<lparr>req_path = ''/chatbot'', req_query = [(''query'', q)]\<rparr>"
    by (subst to_request_query) (simp_all add: parse_qsl_single)
  moreover have "dispatch ''/chatbot'' = Matched EChatbot []" by code_simp
  ultimately show "serve tok wn ms \<lparr>rq_method = GET, rq_target = ''/chatbot?'' @ urlencode [(''query'', q)]\<rparr> =
      reply (chatbot tok wn ms q)"
    by (simp add: serve_GET handle_def require_def query_param_def)
qed

theorem client_urls_reach_handlers_witness:
  "serve (always word_tokenize) (always stub_wordnet) sample_catalog \<lparr>rq_method = GET, rq_target = ''/movies/'' @ quote ''s 1''\<rparr> =
     reply (Inr (get_movie sample_catalog ''s 1''))"
  using client_urls_reach_handlers [of "''s 1''" "always word_tokenize" "always stub_wordnet" sample_catalog]
  by simp

end
