(* ===== verification/Server.thy ===== *)
theory Server
  imports Http Nltk
begin

text \<open>
  The life of the server process. Importing \<^verbatim>\<open>src/main.py\<close> runs the NLTK set-up
  (lines 22--27) and then \<open>movies_list = load_movies()\<close> (line 42) before the
  application exists (line 52): either the CSV file is read and the process serves
  requests over the catalog it built, with the NLTK capabilities the set-up left, or
  reading it raises and the import, hence the process, fails. After start-up no request
  writes \<open>movies_list\<close> or the NLTK state. The steps form an inductive relation whose
  label is the HTTP request answered, as it arrives (method and target), with its response
  (\<open>None\<close> for the start-up step); \<open>w\<close> is the machine,
  \<open>src\<close> the content of the CSV file (\<open>None\<close> when it cannot be read) and the initial
  state \<open>Starting env0\<close> holds NLTK's default state. Reachable states and runs
  are inductive as well, and the properties are proved by rule induction over them.
\<close>

datatype server = Starting nltk_env | Serving nltk_env "movie list" | Crashed

type_synonym label = "(raw_request \<times> http_response) option"

inductive server_step ::
  "nltk_world \<Rightarrow> string option \<Rightarrow> server \<Rightarrow> label \<Rightarrow> server \<Rightarrow> bool"
  for w :: nltk_world and src :: "string option" where
  load: "src = Some text \<Longrightarrow> load_movies text = Inr ms \<Longrightarrow>
    server_step w src (Starting env) None (Serving (nltk_setup w env) ms)"
| load_fails: "src = None \<Longrightarrow> server_step w src (Starting env) None Crashed"
| load_raises: "src = Some text \<Longrightarrow> load_movies text = Inl e \<Longrightarrow>
    server_step w src (Starting env) None Crashed"
| answer: "server_step w src (Serving env ms)
    (Some (r, serve (nltk_tokenizer w env) (nltk_wordnet w env) ms r)) (Serving env ms)"

inductive reachable :: "nltk_world \<Rightarrow> string option \<Rightarrow> nltk_env \<Rightarrow> server \<Rightarrow> bool"
  for w :: nltk_world and src :: "string option" and env0 :: nltk_env where
  start: "reachable w src env0 (Starting env0)"
| step: "reachable w src env0 s \<Longrightarrow> server_step w src s l s' \<Longrightarrow> reachable w src env0 s'"

inductive run ::
  "nltk_world \<Rightarrow> string option \<Rightarrow> server \<Rightarrow> label list \<Rightarrow> server \<Rightarrow> bool"
  for w :: nltk_world and src :: "string option" where
  run_nil: "run w src s [] s"
| run_cons: "server_step w src s l s' \<Longrightarrow> run w src s' ls s'' \<Longrightarrow> run w src s (l # ls) s''"

text \<open>
  The invariant of reachable states: a serving process holds the NLTK state of the
  set-up and the catalog loaded from the file.
\<close>

definition server_inv :: "nltk_world \<Rightarrow> string option \<Rightarrow> nltk_env \<Rightarrow> server \<Rightarrow> bool" where
  "server_inv w src env0 s \<longleftrightarrow>
     (case s of
        Starting env \<Rightarrow> env = env0
      | Serving env ms \<Rightarrow> env = nltk_setup w env0 \<and> (\<exists>text. src = Some text \<and> load_movies text = Inr ms)
      | Crashed \<Rightarrow> src = None \<or> (\<exists>text e. src = Some text \<and> load_movies text = Inl e))"

inductive_cases step_StartingE: "server_step w src (Starting env) l s'"
inductive_cases step_ServingE: "server_step w src (Serving env ms) l s'"
inductive_cases step_CrashedE: "server_step w src Crashed l s'"

section \<open>Lemmas\<close>

lemma server_step_inv:
  "server_step w src s l s' \<Longrightarrow> server_inv w src env0 s \<Longrightarrow> server_inv w src env0 s'"
  by (induction rule: server_step.induct) (auto simp: server_inv_def)

lemma reachable_inv: "reachable w src env0 s \<Longrightarrow> server_inv w src env0 s"
proof (induction rule: reachable.induct)
  case start
  then show ?case by (simp add: server_inv_def)
next
  case (step s l s')
  then show ?case by (blast intro: server_step_inv)
qed

lemma reachable_serving:
  assumes "reachable w src env0 (Serving env ms)"
  obtains csv where "env = nltk_setup w env0" and "src = Some csv" and "load_movies csv = Inr ms"
  using reachable_inv [OF assms] by (auto simp: server_inv_def)

lemma serving_loaded:
  assumes "reachable w src env0 (Serving env ms)" and "src = Some text"
    and "text_column text ''listed_in''"
  shows "env = nltk_setup w env0 \<and> load_movies text = Inr ms \<and> catalog_ok ms"
proof -
  from assms(1) obtain text' where "env = nltk_setup w env0" and "src = Some text'"
    and "load_movies text' = Inr ms"
    by (rule reachable_serving)
  with assms(2,3) show ?thesis by (auto intro: load_movies_ok)
qed


lemma serving_run:
  "run w src (Serving env ms) ls s \<Longrightarrow>
     s = Serving env ms \<and>
     (\<forall>x\<in>set ls. \<exists>r. x = Some (r, serve (nltk_tokenizer w env) (nltk_wordnet w env) ms r))"
  by (induction "Serving env ms" ls s rule: run.induct) (auto elim: step_ServingE)



lemma crashed_run: "run w src Crashed ls s \<Longrightarrow> ls = []"
  by (cases rule: run.cases) (auto elim: step_CrashedE)

lemma step_load_sample:
  "server_step w (Some sample_csv) (Starting env) None (Serving (nltk_setup w env) [sample_movie])"
  by (rule server_step.load [OF refl load_sample])

lemma reachable_sample:
  "reachable w (Some sample_csv) env (Serving (nltk_setup w env) [sample_movie])"
  by (rule reachable.step [OF reachable.start step_load_sample])

section \<open>Properties\<close>

text \<open>
  C3. The invariant of the process: in every reachable state in which it serves, the
  catalog is the one \<open>load_movies\<close> built from the CSV file at start-up, and, when the
  file's \<open>listed_in\<close> column holds text, it is well-formed (every category a string, no
  NaN); the NLTK state is the one the set-up of lines 22--27 left.
\<close>

theorem reachable_serving_ok:
  assumes "reachable w src env0 (Serving env ms)" and "src = Some text"
    and "text_column text ''listed_in''"
  shows "load_movies text = Inr ms \<and> catalog_ok ms \<and> env = nltk_setup w env0"
  using serving_loaded [OF assms] by blast

theorem reachable_serving_ok_witness:
  "load_movies sample_csv = Inr [sample_movie] \<and> catalog_ok [sample_movie]
     \<and> nltk_setup sample_world fresh_env = nltk_setup sample_world fresh_env"
  by (rule reachable_serving_ok [OF reachable_sample refl text_sample])



text \<open>
  C32. When the CSV file cannot be read, or \<open>pd.read_csv\<close> or the column selection of
  \<open>load_movies\<close> raises on it, the import of the module fails and no request is ever
  answered: the specification's ``catalog unavailable'' error is never delivered to a caller.
\<close>

theorem load_failure_never_serves:
  assumes "reachable w src env0 s"
    and "src = None \<or> (\<exists>e. src = Some text \<and> load_movies text = Inl e)"
  shows "\<not> server_step w src s (Some x) s'"
proof
  assume "server_step w src s (Some x) s'"
  then obtain env ms where "s = Serving env ms" by (cases rule: server_step.cases) auto
  with reachable_inv [OF assms(1)] assms(2) show False by (auto simp: server_inv_def)
qed

theorem load_failure_never_serves_witness:
  "\<not> server_step sample_world (Some '''') Crashed
       (Some (\<lparr>rq_method = GET, rq_target = ''/movies''\<rparr>, \<lparr>status = 200, body = NotFoundBody\<rparr>)) Crashed"
proof -
  have ld: "load_movies '''' = Inl EmptyDataError" by code_simp
  have "reachable sample_world (Some '''') fresh_env Crashed"
    by (rule reachable.step [OF reachable.start server_step.load_raises [OF refl ld]])
  then show ?thesis by (rule load_failure_never_serves) (rule disjI2, rule exI, rule conjI [OF refl ld])
qed

text \<open>
  C33. Requests do not affect one another: in every run from start-up, each request is
  answered exactly as \<open>handle\<close> answers it on the catalog loaded at start-up, with the
  NLTK capabilities of the set-up, whatever requests came before.
\<close>

theorem run_stateless:
  assumes "run w (Some text) (Starting env0) ls s" and "Some (r, resp) \<in> set ls"
  shows "\<exists>ms. load_movies text = Inr ms \<and>
    resp = serve (nltk_tokenizer w (nltk_setup w env0)) (nltk_wordnet w (nltk_setup w env0)) ms r"
  using assms
proof (cases rule: run.cases)
  case run_nil
  with assms(2) show ?thesis by simp
next
  case (run_cons l s1 ls')
  with assms(2) have r: "Some (r, resp) \<in> set ls'" by (auto elim: step_StartingE)
  from \<open>server_step w (Some text) (Starting env0) l s1\<close> show ?thesis
  proof (cases rule: server_step.cases)
    case (load t ms)
    with run_cons have "run w (Some text) (Serving (nltk_setup w env0) ms) ls' s" by simp
    from serving_run [OF this] r obtain r' where
      "Some (r, resp) = Some (r', serve (nltk_tokenizer w (nltk_setup w env0))
        (nltk_wordnet w (nltk_setup w env0)) ms r')"
      by blast
    with load show ?thesis by simp
  next
    case (load_raises t e)
    with run_cons r show ?thesis by (auto dest: crashed_run)
  qed auto
qed

theorem run_stateless_witness:
  "\<exists>ms. load_movies sample_csv = Inr ms \<and> \<lparr>status = 200, body = Payload home\<rparr> =
   serve (nltk_tokenizer sample_world (nltk_setup sample_world fresh_env))
     (nltk_wordnet sample_world (nltk_setup sample_world fresh_env)) ms
     \<lparr>rq_method = GET, rq_target = ''/''\<rparr>"
proof -
  let ?env = "nltk_setup sample_world fresh_env"
  let ?ms = "[sample_movie]"
  let ?r = "\<lparr>rq_method = GET, rq_target = ''/''\<rparr>"
  let ?resp = "\<lparr>status = 200, body = Payload home\<rparr>"
  have h: "serve (nltk_tokenizer sample_world ?env) (nltk_wordnet sample_world ?env) ?ms ?r = ?resp"
    by code_simp
  have "server_step sample_world (Some sample_csv) (Serving ?env ?ms) (Some (?r, ?resp))
      (Serving ?env ?ms)"
    using server_step.answer [of sample_world "Some sample_csv" ?env ?ms ?r] h by simp
  then have "run sample_world (Some sample_csv) (Serving ?env ?ms) [Some (?r, ?resp)] (Serving ?env ?ms)"
    by (rule run.run_cons [OF _ run.run_nil])
  then have "run sample_world (Some sample_csv) (Starting fresh_env) [None, Some (?r, ?resp)]
      (Serving ?env ?ms)"
    by (rule run.run_cons [OF step_load_sample])
  from run_stateless [OF this] show ?thesis by simp
qed



text \<open>
  C13. The set-up of lines 22--27 is enough on a machine whose NLTK tokenizer loads
  \<open>punkt\<close> (NLTK up to 3.8.1) and on which both downloads succeed: afterwards neither
  NLTK capability raises, whatever was installed before.
\<close>

theorem nltk_setup_ready:
  assumes "w_punkt w = ''punkt''" and "w_net w ''punkt''" and "w_net w ''wordnet''"
  shows "nltk_ready w (nltk_setup w env)"
  using assms
  by (simp add: nltk_ready_def nltk_setup_def Let_def available_download available_append_path)

theorem nltk_setup_ready_witness: "nltk_ready sample_world (nltk_setup sample_world fresh_env)"
  by (rule nltk_setup_ready) (simp_all add: sample_world_def)

text \<open>
  C15. The set-up is not enough on a machine whose NLTK tokenizer loads \<open>punkt_tab\<close>
  (NLTK 3.8.2 and later) unless that package was installed beforehand: the program
  downloads \<open>punkt\<close> only, so even when every download succeeds each chatbot request
  with a \<open>query\<close> is answered 500 (\<open>LookupError\<close> from \<open>word_tokenize\<close>).
\<close>

theorem chatbot_punkt_tab:
  assumes "reachable w src env0 (Serving env ms)" and "w_punkt w = ''punkt_tab''"
    and "\<not> available w env0 ''punkt_tab''" and "''punkt_tab'' \<notin> w_installed w home_nltk_data"
    and "query_param (parse_qsl qs) ''query'' = Some q"
  shows "server_step w src (Serving env ms)
    (Some (\<lparr>rq_method = GET, rq_target = ''/chatbot?'' @ qs\<rparr>, \<lparr>status = 500, body = ServerError\<rparr>))
    (Serving env ms)"
proof -
  from assms(1) have env: "env = nltk_setup w env0" by (rule reachable_serving)
  with assms(2-4) have "\<not> available w env (w_punkt w)" by (simp add: available_setup)
  then have "expand_query (nltk_tokenizer w env) (nltk_wordnet w env) q = Inl LookupError"
    by (simp add: expand_query_def nltk_tokenizer_missing)
  moreover have "dispatch ''/chatbot'' = Matched EChatbot []" by code_simp
  ultimately have "handle (nltk_tokenizer w env) (nltk_wordnet w env) ms
      \<lparr>req_path = ''/chatbot'', req_query = parse_qsl qs\<rparr> = \<lparr>status = 500, body = ServerError\<rparr>"
    using assms(5) by (simp add: handle_def require_def reply_def chatbot_Inl)
  moreover have "to_request \<lparr>rq_method = GET, rq_target = ''/chatbot'' @ CHR ''?'' # qs\<rparr> =
      \<lparr>req_path = ''/chatbot'', req_query = parse_qsl qs\<rparr>"
    by (subst to_request_query) simp_all
  ultimately have "serve (nltk_tokenizer w env) (nltk_wordnet w env) ms
      \<lparr>rq_method = GET, rq_target = ''/chatbot?'' @ qs\<rparr> = \<lparr>status = 500, body = ServerError\<rparr>"
    by (simp add: serve_GET)
  with server_step.answer [of w src env ms "\<lparr>rq_method = GET, rq_target = ''/chatbot?'' @ qs\<rparr>"]
  show ?thesis by simp
qed

theorem chatbot_punkt_tab_witness:
  "server_step tab_world (Some sample_csv)
     (Serving (nltk_setup tab_world fresh_env) [sample_movie])
     (Some (\<lparr>rq_method = GET, rq_target = ''/chatbot?'' @ ''query=funny''\<rparr>,
            \<lparr>status = 500, body = ServerError\<rparr>))
     (Serving (nltk_setup tab_world fresh_env) [sample_movie])"
  by (rule chatbot_punkt_tab [OF reachable_sample])
    (simp_all add: tab_world_def sample_world_def fresh_env_def available_def, code_simp)



end
