(* ===== verification/Spec2Isabelle.thy ===== *)
theory Spec2Isabelle
  imports Server
begin

text \<open>
  \<^bold>\<open>A verified model of the movie-catalog query service\<close> (\<^verbatim>\<open>src/main.py\<close>).

  \<^bold>\<open>The program.\<close> A FastAPI application whose module, when imported, first sets
  up NLTK (appends a directory to the data search path, downloads the \<open>punkt\<close> and
  \<open>wordnet\<close> packages), then loads the Netflix catalog from a CSV file
  (\<open>load_movies\<close>, \<open>movies_list\<close>), and then answers five GET routes: a welcome page,
  the whole catalog, one movie by id, a category search and a ``chatbot'' that lowercases
  and tokenizes a free-text query with NLTK, adds the WordNet synonyms of every token and
  returns the records whose lowercased category contains one of the terms. Requests only
  read the catalog.

  \<^bold>\<open>The theories, in import order.\<close>
  \<^item> \<open>Prelude\<close>: Python values of a DataFrame cell (\<open>pyval\<close>: str, int64, float64 as
    an exact rational, bool, NaN), the exceptions the program can raise
    (\<open>AttributeError\<close>, \<open>LookupError\<close>, pandas' \<open>ParserError\<close> and
    \<open>EmptyDataError\<close>, \<open>KeyError\<close>), results \<open>py_error + 'a\<close>, the
    fallible comprehensions \<open>filter_res\<close> and \<open>map_res\<close>, the types of the two NLTK
    capabilities (\<open>tokenizer\<close>, \<open>wordnet\<close>, both fallible; \<open>always\<close> lifts a table
    that never raises), and shared lemmas on lists, \<open>find\<close> and character codes.
  \<^item> \<open>Text\<close>: \<open>str.lower\<close> (\<open>lower\<close>, ASCII capitals only) and \<open>s in t\<close> on
    strings (\<open>is_infix\<close>, naive search), proved equal to the library's \<open>sublist\<close>.
  \<^item> \<open>Csv\<close>: \<open>pd.read_csv\<close> of line 33 with pandas' default options: the C
    tokenizer's state machine (\<open>tokenize_bytes\<close>, its termination by a measure on the
    remaining input), the default NA markers (\<open>na_values\<close>), the number parsers and the
    dtype inference of a column (\<open>infer_column\<close>: int64, float64 with NaN, bool, str), and
    the DataFrame (\<open>frame\<close>, \<open>read_csv\<close>); a CSV writer that quotes every field
    (\<open>render_csv\<close>) states the tokenizer's round trip.
  \<^item> \<open>Catalog\<close>: the movie dictionary (\<open>movie\<close>), \<open>load_movies\<close> (lines 31--39) as
    written: the DataFrame of the file, \<open>df[[...]]\<close> (\<open>select_columns\<close>, \<open>KeyError\<close>
    when a column is missing), the renaming and \<open>to_dict(orient='records')\<close>
    (\<open>to_records\<close>) and \<open>fillna('')\<close>; the well-formedness invariant
    \<open>catalog_ok\<close> and the condition \<open>text_column\<close> under which the loaded catalog has it.
  \<^item> \<open>Tokenize\<close>: a tokenizer meeting the specification's contract for
    \<open>word_tokenize\<close> (whitespace and punctuation boundaries, punctuation kept as tokens),
    used only for concrete instances.
  \<^item> \<open>Wordnet\<close>: \<open>wordnet.synsets\<close> as NLTK's \<open>WordNetCorpusReader\<close> computes it:
    the word lowercased, every part of speech searched through \<open>_morphy\<close> (the exception
    lists, the detachment rules \<open>substitutions\<close>, the \<open>while forms\<close> loop
    \<open>morphy_loop\<close>, \<open>filter_forms\<close>), the synsets of the indexed forms as their lemma
    names; the database (\<open>wn_db\<close>: index, exception lists, lemmas) is data.
  \<^item> \<open>Nltk\<close>: the NLTK state (\<open>nltk_env\<close>: search path, downloaded packages), the
    machine (\<open>nltk_world\<close>: installed packages per directory, which downloads succeed,
    the tokenizer table and the WordNet database, the package the tokenizer loads), the set-up of lines
    20--27 (\<open>nltk_setup\<close>, \<open>nltk_download\<close>) and the capabilities as the handlers see
    them (\<open>nltk_tokenizer\<close>, \<open>nltk_wordnet\<close>: \<open>LookupError\<close> unless their package is
    found).
  \<^item> \<open>Synonyms\<close>: \<open>get_synonyms\<close> (lines 46--48) over WordNet.
  \<^item> \<open>Fixtures\<close>: the catalog of the specification's scenarios, a one-row CSV file of
    the Netflix table and the record it loads to, files with numeral ids and a numeric
    category column, a record with a NaN category, a stub WordNet corpus and database and
    two machines (NLTK before and after 3.8.2).
  \<^item> \<open>Service\<close>: the handlers \<open>home\<close>, \<open>get_movies\<close>, \<open>get_movie\<close>, \<open>chatbot\<close>,
    \<open>get_movies_by_category\<close> (lines 56--100), with the query expander
    \<open>expand_query\<close> (lines 81--84) and the matcher \<open>match_terms\<close> (line 87) separated out,
    and the matcher's contract \<open>term_match\<close>.
  \<^item> \<open>Routing\<close>: the route table in registration order (the documentation routes
    \<open>FastAPI(...)\<close> adds at line 52, then the decorators), Starlette's
    first-match dispatch with trailing-slash redirects and its reverse \<open>url_path_for\<close>,
    query-parameter validation (422), exceptions and values the JSON encoder rejects as
    500, returned values as 200 (\<open>reply\<close>, \<open>handle\<close>).
  \<^item> \<open>Http\<close>: the request as it arrives (\<open>raw_request\<close>: method and target), uvicorn's
    split of the target and percent-decoding of the path (\<open>unquote\<close>), Starlette's
    query-string parsing (\<open>parse_qsl\<close>), and the whole exchange \<open>serve\<close>: GET and HEAD
    on every route, 405 for other methods, HEAD without body; and, to state round trips,
    the client-side encoders \<open>quote\<close>, \<open>quote_plus\<close>, \<open>urlencode\<close>.
  \<^item> \<open>Server\<close>: the process as an inductive step relation: start-up runs the NLTK
    set-up and loads the catalog from the file's content, or fails when the file cannot be
    read or \<open>load_movies\<close> raises, then every step answers one HTTP request with
    \<open>serve\<close> and the NLTK capabilities of the set-up; reachable states and runs are
    inductive, their properties are proved by rule induction.

  \<^bold>\<open>Correspondence.\<close> Each handler takes the module global \<open>movies_list\<close> as its first
  argument and the two NLTK capabilities as parameters; a comprehension is
  \<open>filter_res\<close> or \<open>map_res\<close> over the expression the code evaluates, raising where
  the code would, in the code's order; \<open>any(...)\<close> over an empty term set never reads the
  category, as in Python. Every theorem about the chatbot holds for every tokenizer and
  every WordNet, failing ones included; the server theorems hold for every machine.

  \<^bold>\<open>What is proved.\<close> The CSV tokenizer reads back what a quoting writer wrote,
  and dtype inference types a column as pandas does; \<open>load_movies\<close> keeps the rows in
  order with their cells under the new keys, raises \<open>KeyError\<close> when a column is missing,
  builds a well-formed catalog whenever the \<open>listed_in\<close> column is text, and every
  record it builds is JSON-serialisable. WordNet's \<open>morphy\<close> returns indexed forms
  only, the word itself first when indexed, and its loop terminates. The matcher and the
  chatbot implement their contracts on every well-formed catalog; expansion keeps the
  query's tokens; matching is monotone in the terms; the two searches agree and are
  case-insensitive; \<open>get_movie\<close> returns the first record with the id or the
  not-found payload; reverse routing and routing are inverse. Of HTTP: \<open>serve\<close>
  refines \<open>handle\<close> for GET and HEAD, refuses other methods before any handler runs,
  \<open>parse_qsl\<close> inverts \<open>urlencode\<close>, and the URLs a client builds with \<open>quote\<close>
  and \<open>urlencode\<close> reach \<open>get_movie\<close> and \<open>chatbot\<close> with the values encoded. Of the
  running server: the invariant of reachable states, that no request is answered 500
  when the NLTK data is present and the category column is text, that a 500 can only
  come from the chatbot or the category search and why, that every
  sequence of requests is answered and that requests do not affect one another. The error
  paths are theorems too: a non-string category raises, a missing WordNet or tokenizer
  package raises \<open>LookupError\<close>, a missing parameter gives 422, a failed load means no
  request is ever answered.

  \<^bold>\<open>Findings.\<close> \<open>get_movies\<close> returns (does not raise) its \<open>HTTPException\<close>, so an empty
  catalog is answered with status 200; \<open>/movies/by_category\<close> without the trailing slash
  is served by \<open>get_movie\<close>; punctuation tokens of a query (a comma) match most
  multi-genre categories; a catalog that fails to load stops the process rather than
  giving the specified ``catalog unavailable'' error; the set-up downloads \<open>punkt\<close>
  while the tokenizer of NLTK 3.8.2 and later loads \<open>punkt_tab\<close>, so there every chatbot
  query is answered 500; an offline start-up leaves WordNet missing and every chatbot
  query with a token answered 500. From the loader: ids written as numerals are read as
  integers, so no \<open>GET /movies/{id}\<close> ever finds them; pandas' NA markers (a title
  ``NA'', a category ``None'') become empty strings; a year column with a missing cell
  becomes float; a numbers-only category column makes the searches answer 500; a file
  missing a column or malformed stops the process at import. From the framework: an id
  holding \<open>/\<close> can never be looked up, since its escape \<open>%2F\<close> is decoded before
  routing.

  \<^bold>\<open>Bounds and termination.\<close> No loop needs fuel. Most recursions of the model (over
  strings, token lists, the catalog, the route table, path segments) are structural; the
  two that are not are proved to terminate: the CSV tokenizer, which re-reads a character
  on two state changes, decreases \<open>2 * length s\<close> plus one in the states that re-read
  (\<open>tok_measure\<close>), and \<open>_morphy\<close>'s \<open>while forms\<close> loop decreases the largest
  \<open>form_measure\<close> of its forms, since every detachment rule shortens a word or turns
  ``men'' into ``man''. So every definition is total and executable, and the concrete scenarios are
  evaluated by \<open>code_simp\<close>. Liveness is stated over finite request sequences.

  \<^bold>\<open>Not modelled.\<close> Reading the CSV file (its content is the parameter \<open>src\<close>) and the
  network (which downloads succeed is a parameter of the machine); the internals of NLTK's
  tokenizer (a table of the machine); the content of the WordNet database, the
  satellite-adjective part of speech (folded into adjectives) and synset objects (a synset
  is its lemma names); of pandas' parser: carriage-return line ends, escape characters,
  the float literals inf and nan, int64 overflow, float rounding (floats are exact
  rationals) and the implicit index column of a header shorter than its rows; where
  \<open>nltk.download\<close> writes a package (it is recorded as downloaded); of HTTP, headers,
  content negotiation and the bytes of the documentation pages (the program sets none of
  them), and URL fragments (clients do not send them). Strings are byte lists, so a
  percent escape decodes to one byte and UTF-8 is not decoded:
  \<open>lower\<close> lowercases ASCII only, so non-ASCII capitals (as Python's \<open>str.lower\<close> would
  change them) are left alone; the catalog's categories are ASCII.
\<close>

section \<open>Properties across components\<close>




theorem load_movies_nth_witness:
  "length [sample_movie] =
     fr_nrows \<lparr>fr_columns = [''show_id'', ''type'', ''title'', ''director'', ''release_year'',
                 ''listed_in'', ''rating'', ''description''],
               fr_data = [[PStr ''s1''], [PStr ''Movie''], [PStr ''Dick Johnson Is Dead''],
                 [PStr ''Kirsten Johnson''], [PInt 2020], [PStr ''Documentaries''], [PStr ''PG-13''],
                 [PNaN]],
               fr_nrows = 1\<rparr>
   \<and> [sample_movie] ! 0 =
     \<lparr>movie_id = fillna (PStr ''s1''), title = fillna (PStr ''Dick Johnson Is Dead''),
      year = fillna (PInt 2020), category = fillna (PStr ''Documentaries''),
      rating = fillna (PStr ''PG-13''), overview = fillna PNaN\<rparr>"
proof -
  have rd: "read_csv sample_csv =
    Inr \<lparr>fr_columns = [''show_id'', ''type'', ''title'', ''director'', ''release_year'',
                 ''listed_in'', ''rating'', ''description''],
         fr_data = [[PStr ''s1''], [PStr ''Movie''], [PStr ''Dick Johnson Is Dead''],
           [PStr ''Kirsten Johnson''], [PInt 2020], [PStr ''Documentaries''], [PStr ''PG-13''],
           [PNaN]],
         fr_nrows = 1\<rparr>"
    by code_simp
  from Catalog.load_movies_nth [OF rd load_sample, of 0] show ?thesis
    by (simp add: column_of_def)
qed

theorem load_movies_missing_column_witness:
  "load_movies (render_csv [[''show_id'', ''title''], [''s1'', ''Se7en'']]) = Inl KeyError"
  by (rule Catalog.load_movies_missing_column
        [of _ "\<lparr>fr_columns = [''show_id'', ''title''], fr_data = [[PStr ''s1''], [PStr ''Se7en'']],
                 fr_nrows = 1\<rparr>" "''description''"]) code_simp+

end
